(* ===== verification/Prelude.thy ===== *)
theory Prelude
  imports Main "HOL-Library.Sublist"
begin

text \<open>
  The JavaScript string built-ins that the fiscal-code component calls, as HOL functions on
  \<open>string\<close> (a list of byte characters), and the lemmas on them that the component
  theories share. A TypeScript string is a sequence of UTF-16 code units; every input this
  development evaluates is ASCII, where code units and bytes coincide. The built-ins are
  modelled on the ASCII range only:
  \<^item> \<open>String.prototype.trim\<close> removes the ASCII white space (tab, line feed, vertical
    tab, form feed, carriage return, space) at both ends;
  \<^item> \<open>toUpperCase\<close> / \<open>toLowerCase\<close> map the 26 ASCII letters and leave every
    other character alone;
  \<^item> \<open>split(sep)\<close> with a one-character separator and \<open>join(sep)\<close>;
  \<^item> \<open>includes\<close> (substring test), \<open>String(n)\<close> on integers (decimal, with a minus
    sign), \<open>Array.prototype.splice\<close> (its returned part), and the string
    \<open>''undefined''\<close> that \<open>+\<close> and template literals produce from \<open>undefined\<close>.
\<close>

named_theorems js_simps "evaluation rules of the JavaScript built-ins"
named_theorems alphabet_simps "unfolding of the character tables"

section \<open>Character classes\<close>

definition upper_letters :: string where
  "upper_letters = ''ABCDEFGHIJKLMNOPQRSTUVWXYZ''"

definition lower_letters :: string where
  "lower_letters = ''abcdefghijklmnopqrstuvwxyz''"

definition decimal_digits :: string where
  "decimal_digits = ''0123456789''"

declare upper_letters_def [alphabet_simps] lower_letters_def [alphabet_simps]
  decimal_digits_def [alphabet_simps]

definition js_is_space :: "char \<Rightarrow> bool" where
  "js_is_space c \<longleftrightarrow> c \<in> set [CHR 0x09, CHR 0x0A, CHR 0x0B, CHR 0x0C, CHR 0x0D, CHR '' '']"

section \<open>Case conversion\<close>

definition js_char_toUpperCase :: "char \<Rightarrow> char" where
  "js_char_toUpperCase c =
     (case map_of (zip lower_letters upper_letters) c of Some u \<Rightarrow> u | None \<Rightarrow> c)"

definition js_char_toLowerCase :: "char \<Rightarrow> char" where
  "js_char_toLowerCase c =
     (case map_of (zip upper_letters lower_letters) c of Some l \<Rightarrow> l | None \<Rightarrow> c)"

definition js_toUpperCase :: "string \<Rightarrow> string" where
  "js_toUpperCase s = map js_char_toUpperCase s"

definition js_toLowerCase :: "string \<Rightarrow> string" where
  "js_toLowerCase s = map js_char_toLowerCase s"

section \<open>trim, split, join, includes\<close>

definition js_trim :: "string \<Rightarrow> string" where
  "js_trim s = rev (dropWhile js_is_space (rev (dropWhile js_is_space s)))"

text \<open>\<open>s.split(sep)\<close>: the chunk read so far is the accumulator \<open>cur\<close>.\<close>

fun js_split_from :: "char \<Rightarrow> string \<Rightarrow> string \<Rightarrow> string list" where
  "js_split_from sep cur [] = [cur]"
| "js_split_from sep cur (x # xs) =
     (if x = sep then cur # js_split_from sep [] xs else js_split_from sep (cur @ [x]) xs)"

definition js_split :: "char \<Rightarrow> string \<Rightarrow> string list" where
  "js_split sep s = js_split_from sep [] s"

fun js_join :: "string \<Rightarrow> string list \<Rightarrow> string" where
  "js_join sep [] = []"
| "js_join sep [x] = x"
| "js_join sep (x # y # zs) = x @ sep @ js_join sep (y # zs)"

text \<open>\<open>s.includes(t)\<close>: \<open>t\<close> occurs in \<open>s\<close> at some position.\<close>

fun js_includes :: "string \<Rightarrow> string \<Rightarrow> bool" where
  "js_includes [] t \<longleftrightarrow> t = []"
| "js_includes (c # s) t \<longleftrightarrow> take (length t) (c # s) = t \<or> js_includes s t"

section \<open>Numbers printed as strings\<close>

definition digit_char :: "nat \<Rightarrow> char" where
  "digit_char d = decimal_digits ! d"

fun string_of_nat :: "nat \<Rightarrow> string" where
  "string_of_nat n =
     (if n < 10 then [digit_char n] else string_of_nat (n div 10) @ [digit_char (n mod 10)])"

declare string_of_nat.simps [simp del]

text \<open>\<open>String(i)\<close> and \<open>`${i}`\<close> for an integer-valued number.\<close>

definition js_string_of_int :: "int \<Rightarrow> string" where
  "js_string_of_int i =
     (if i < 0 then CHR ''-'' # string_of_nat (nat (- i)) else string_of_nat (nat i))"

text \<open>The reading of a decimal string, used to state round trips.\<close>

definition nat_of_string :: "string \<Rightarrow> nat" where
  "nat_of_string s = foldl (\<lambda>n c. 10 * n + (of_char c - 48)) 0 s"

section \<open>Arrays and undefined\<close>

text \<open>The array that \<open>xs.splice(start, count)\<close> returns (the removed elements).\<close>

definition js_splice_removed :: "nat \<Rightarrow> nat \<Rightarrow> 'a list \<Rightarrow> 'a list" where
  "js_splice_removed start cnt xs = take cnt (drop start xs)"

text \<open>A value of type \<open>string | undefined\<close> turned into a string by \<open>+\<close> or a
  template literal.\<close>

definition js_show_opt :: "string option \<Rightarrow> string" where
  "js_show_opt v = (case v of Some s \<Rightarrow> s | None \<Rightarrow> ''undefined'')"

section \<open>Lemmas\<close>

lemma js_join_nil_sep [js_simps]: "js_join [] xs = concat xs"
  by (induction "[] :: string" xs rule: js_join.induct) simp_all

lemma js_split_from_join: "js_join [] (js_split_from sep cur s) = cur @ filter (\<lambda>x. x \<noteq> sep) s"
  by (induction s arbitrary: cur) (simp_all add: js_join_nil_sep)

lemma js_split_join [js_simps]: "js_join [] (js_split sep s) = filter (\<lambda>x. x \<noteq> sep) s"
  by (simp add: js_split_def js_split_from_join)

lemma js_includes_sublist: "js_includes s t \<longleftrightarrow> sublist t s"
proof (induction s)
  case Nil
  then show ?case by simp
next
  case (Cons c s)
  have "take (length t) (c # s) = t \<longleftrightarrow> prefix t (c # s)"
    by (auto simp: prefix_def) (metis append_take_drop_id)
  with Cons show ?case by (cases t) (auto simp: sublist_code)
qed

lemma string_of_nat_small [js_simps]: "n < 10 \<Longrightarrow> string_of_nat n = [digit_char n]"
  by (simp add: string_of_nat.simps)

lemma string_of_nat_big: "10 \<le> n \<Longrightarrow> string_of_nat n = string_of_nat (n div 10) @ [digit_char (n mod 10)]"
  by (subst string_of_nat.simps) simp

lemma string_of_nat_two_digits:
  assumes "10 \<le> n" "n < 100"
  shows "string_of_nat n = [digit_char (n div 10), digit_char (n mod 10)]"
  using assms by (simp add: string_of_nat_big string_of_nat_small)

lemma string_of_nat_four_digits:
  assumes "1000 \<le> n" "n < 10000"
  shows "string_of_nat n = [digit_char (n div 1000), digit_char (n div 100 mod 10),
                            digit_char (n div 10 mod 10), digit_char (n mod 10)]"
proof -
  have "string_of_nat (n div 100) = [digit_char (n div 1000), digit_char (n div 100 mod 10)]"
    using assms by (simp add: string_of_nat_two_digits div_mult2_eq [symmetric])
  moreover have "string_of_nat (n div 10) = string_of_nat (n div 100) @ [digit_char (n div 10 mod 10)]"
    using assms by (simp add: string_of_nat_big div_mult2_eq [symmetric])
  ultimately show ?thesis
    using assms by (simp add: string_of_nat_big)
qed

lemma string_of_nat_three_digits:
  assumes "100 \<le> n" "n < 1000"
  shows "length (string_of_nat n) = 3"
proof -
  have "string_of_nat (n div 10) = [digit_char (n div 100), digit_char (n div 10 mod 10)]"
    using assms by (simp add: string_of_nat_two_digits div_mult2_eq [symmetric])
  then show ?thesis using assms by (simp add: string_of_nat_big)
qed

lemma of_char_digit_char [js_simps]: "d < 10 \<Longrightarrow> of_char (digit_char d) = 48 + d"
  by (auto simp: digit_char_def decimal_digits_def less_Suc_eq numeral_eq_Suc)

lemma digit_char_inj: "a < 10 \<Longrightarrow> b < 10 \<Longrightarrow> digit_char a = digit_char b \<longleftrightarrow> a = b"
  by (metis of_char_digit_char add_left_cancel)

lemma nat_of_string_snoc: "nat_of_string (s @ [c]) = 10 * nat_of_string s + (of_char c - 48)"
  by (simp add: nat_of_string_def)

lemma nat_of_string_string_of_nat [js_simps]: "nat_of_string (string_of_nat n) = n"
proof (induction n rule: string_of_nat.induct)
  case (1 n)
  show ?case
  proof (cases "n < 10")
    case True
    then show ?thesis by (simp add: string_of_nat_small nat_of_string_def of_char_digit_char)
  next
    case False
    with "1.IH" show ?thesis
      by (simp add: string_of_nat_big nat_of_string_snoc of_char_digit_char)
  qed
qed

lemma map_of_zip_notin: "x \<notin> set xs \<Longrightarrow> map_of (zip xs ys) x = None"
  by (induction xs arbitrary: ys) (auto simp: zip_Cons1 split: list.splits)

lemma upper_letters_below: "c \<in> set upper_letters \<Longrightarrow> of_char c < (97::nat)"
proof -
  have "list_all (\<lambda>c. of_char c < (97::nat)) upper_letters" by (simp add: alphabet_simps)
  then show "c \<in> set upper_letters \<Longrightarrow> of_char c < (97::nat)" by (simp add: list_all_iff)
qed
lemma lower_letters_above: "c \<in> set lower_letters \<Longrightarrow> (97::nat) \<le> of_char c"
proof -
  have "list_all (\<lambda>c. (97::nat) \<le> of_char c) lower_letters" by (simp add: alphabet_simps)
  then show "c \<in> set lower_letters \<Longrightarrow> 97 \<le> (of_char c :: nat)" by (simp add: list_all_iff)
qed
lemma upper_toUpperCase [js_simps]: "c \<in> set upper_letters \<Longrightarrow> js_char_toUpperCase c = c"
proof -
  assume "c \<in> set upper_letters"
  then have "c \<notin> set lower_letters"
    using upper_letters_below lower_letters_above by fastforce
  then show ?thesis by (simp add: js_char_toUpperCase_def map_of_zip_notin)
qed

lemma lower_toUpperCase: "c \<in> set lower_letters \<Longrightarrow> js_char_toUpperCase c \<in> set upper_letters"
  by (auto simp: js_char_toUpperCase_def alphabet_simps)

lemma length_js_toUpperCase [js_simps]: "length (js_toUpperCase s) = length s"
  by (simp add: js_toUpperCase_def)

lemma upper_letters_props: "distinct upper_letters" "length upper_letters = 26"
  and lower_letters_props: "distinct lower_letters" "length lower_letters = 26"
  by (simp_all add: alphabet_simps)

lemma upper_letters_above: "c \<in> set upper_letters \<Longrightarrow> (65::nat) \<le> of_char c"
proof -
  have "list_all (\<lambda>c. (65::nat) \<le> of_char c) upper_letters" by (simp add: alphabet_simps)
  then show "c \<in> set upper_letters \<Longrightarrow> 65 \<le> (of_char c :: nat)" by (simp add: list_all_iff)
qed

lemma js_is_space_below: "js_is_space c \<Longrightarrow> of_char c \<le> (32::nat)"
  by (auto simp: js_is_space_def)

lemma toLowerCase_upper: 
  assumes "c \<in> set upper_letters"
  obtains i where "i < 26" "c = upper_letters ! i" "js_char_toLowerCase c = lower_letters ! i"
proof -
  from assms obtain i where i: "i < length upper_letters" "c = upper_letters ! i"
    by (auto simp: in_set_conv_nth)
  then have "js_char_toLowerCase c = lower_letters ! i"
    using upper_letters_props lower_letters_props
    by (simp add: js_char_toLowerCase_def map_of_zip_nth)
  with i upper_letters_props that show ?thesis by simp
qed

lemma toLowerCase_other: "c \<notin> set upper_letters \<Longrightarrow> js_char_toLowerCase c = c"
  by (simp add: js_char_toLowerCase_def map_of_zip_notin)

lemma toUpperCase_toLowerCase [js_simps]:
  "js_char_toUpperCase (js_char_toLowerCase c) = js_char_toUpperCase c"
proof (cases "c \<in> set upper_letters")
  case True
  then obtain i where i: "i < 26" "c = upper_letters ! i" "js_char_toLowerCase c = lower_letters ! i"
    by (rule toLowerCase_upper)
  then have "js_char_toUpperCase (lower_letters ! i) = upper_letters ! i"
    using upper_letters_props lower_letters_props
    by (simp add: js_char_toUpperCase_def map_of_zip_nth)
  with i True show ?thesis by (simp add: upper_toUpperCase)
next
  case False
  then show ?thesis by (simp add: toLowerCase_other)
qed

lemma js_is_space_toLowerCase [js_simps]: "js_is_space (js_char_toLowerCase c) \<longleftrightarrow> js_is_space c"
proof (cases "c \<in> set upper_letters")
  case True
  then obtain i where i: "i < 26" "c = upper_letters ! i" "js_char_toLowerCase c = lower_letters ! i"
    by (rule toLowerCase_upper)
  have "lower_letters ! i \<in> set lower_letters" using i lower_letters_props by simp
  then have "\<not> js_is_space (lower_letters ! i)"
    using lower_letters_above js_is_space_below by fastforce
  moreover have "\<not> js_is_space c"
    using True upper_letters_above js_is_space_below by fastforce
  ultimately show ?thesis using i by simp
next
  case False
  then show ?thesis by (simp add: toLowerCase_other)
qed

lemma js_trim_toLowerCase: "js_trim (js_toLowerCase s) = js_toLowerCase (js_trim s)"
  by (simp add: js_trim_def js_toLowerCase_def dropWhile_map rev_map comp_def js_is_space_toLowerCase)

lemma js_toUpperCase_toLowerCase: "js_toUpperCase (js_toLowerCase s) = js_toUpperCase s"
  by (simp add: js_toUpperCase_def js_toLowerCase_def toUpperCase_toLowerCase)

lemma js_show_opt_Some [js_simps]: "js_show_opt (Some s) = s"
  and js_show_opt_None [js_simps]: "js_show_opt None = ''undefined''"
  by (simp_all add: js_show_opt_def)

lemma set_js_trim: "set (js_trim s) \<subseteq> set s"
proof -
  have d: "set (dropWhile js_is_space xs) \<subseteq> set xs" for xs
    by (auto dest: set_dropWhileD)
  show ?thesis
    unfolding js_trim_def using d [of "rev (dropWhile js_is_space s)"] d [of s] by auto
qed

lemma digit_char_mem: "d < 10 \<Longrightarrow> digit_char d \<in> set decimal_digits"
  unfolding digit_char_def by (rule nth_mem) (simp add: alphabet_simps)

lemma dropWhile_filter_comm:
  assumes "\<And>x. \<not> Q x \<Longrightarrow> P x"
  shows "dropWhile P (filter Q xs) = filter Q (dropWhile P xs)"
  using assms by (induction xs) auto

lemma js_trim_filter_space:
  "js_trim (filter (\<lambda>c. c \<noteq> CHR '' '') s) = filter (\<lambda>c. c \<noteq> CHR '' '') (js_trim s)"
proof -
  have sp: "\<not> c \<noteq> CHR '' '' \<Longrightarrow> js_is_space c" for c by (simp add: js_is_space_def)
  show ?thesis
    by (simp add: js_trim_def dropWhile_filter_comm [OF sp] rev_filter)
qed

lemma js_char_toUpperCase_space: "js_char_toUpperCase c = CHR '' '' \<longleftrightarrow> c = CHR '' ''"
proof (cases "c \<in> set lower_letters")
  case True
  then have "js_char_toUpperCase c \<in> set upper_letters" by (rule lower_toUpperCase)
  moreover have "CHR '' '' \<notin> set upper_letters" "CHR '' '' \<notin> set lower_letters"
    by (simp_all add: alphabet_simps)
  ultimately show ?thesis using True by auto
next
  case False
  then show ?thesis by (simp add: js_char_toUpperCase_def map_of_zip_notin)
qed

end
