(* ===== verification/Name_Encoder.thy ===== *)
theory Name_Encoder
  imports Prelude
begin

text \<open>
  The name encoder: \<open>MainFormComponent.nameExtractor\<close>
  (src/src/app/views/main-form/main-form.component.ts, lines 76--131). It normalises the
  name (\<open>trim\<close>, \<open>toUpperCase\<close>, removal of the spaces), splits the characters into
  consonants (every character other than A, E, I, O, U) and vowels, and chooses three
  characters by the number of consonants. \<open>skeleton_spec\<close> is the rule of the
  specification in one line; \<open>skeleton_of_spec\<close> shows that the switch implements it.
  The properties: refinement, length 3, the given-name asymmetry, insensitivity to letter
  case and to spaces, the characters a skeleton can hold, and the treatment of non-letters.
\<close>

section \<open>Definitions\<close>

text \<open>\<open>name.trim().toUpperCase().split(' ').join('').split('')\<close>; the last
  \<open>split('')\<close> turns the string into its characters, which a \<open>string\<close> already is.\<close>

definition name_chars :: "string \<Rightarrow> string" where
  "name_chars name = js_join [] (js_split (CHR '' '') (js_toUpperCase (js_trim name)))"

definition consonants :: "string \<Rightarrow> string" where
  "consonants name = filter (\<lambda>element. element \<noteq> CHR ''A'' \<and> element \<noteq> CHR ''E'' \<and>
      element \<noteq> CHR ''I'' \<and> element \<noteq> CHR ''O'' \<and> element \<noteq> CHR ''U'') (name_chars name)"

definition vowels :: "string \<Rightarrow> string" where
  "vowels name = filter (\<lambda>element. element = CHR ''A'' \<or> element = CHR ''E'' \<or>
      element = CHR ''I'' \<or> element = CHR ''O'' \<or> element = CHR ''U'') (name_chars name)"

text \<open>The \<open>switch (consonants.length)\<close>; every index read is in range on its branch.\<close>

definition skeleton_of :: "string \<Rightarrow> string \<Rightarrow> bool \<Rightarrow> string" where
  "skeleton_of cs vs isName =
     (case length cs of
        0 \<Rightarrow> (case length vs of
               0 \<Rightarrow> ''XXX''
             | Suc 0 \<Rightarrow> [vs ! 0] @ ''XX''
             | Suc (Suc 0) \<Rightarrow> [vs ! 0, vs ! 1] @ ''X''
             | _ \<Rightarrow> [vs ! 0, vs ! 1, vs ! 2])
      | Suc 0 \<Rightarrow> [cs ! 0] @ (case length vs of
               0 \<Rightarrow> ''XX''
             | Suc 0 \<Rightarrow> [vs ! 0] @ ''X''
             | _ \<Rightarrow> [vs ! 0, vs ! 1])
      | Suc (Suc 0) \<Rightarrow> [cs ! 0, cs ! 1] @ (case length vs of
               0 \<Rightarrow> ''X''
             | _ \<Rightarrow> [vs ! 0])
      | _ \<Rightarrow> (if isName then
               (if length cs = 3 then [cs ! 0, cs ! 1, cs ! 2] else [cs ! 0, cs ! 2, cs ! 3])
             else [cs ! 0, cs ! 1, cs ! 2]))"

definition nameExtractor :: "string \<Rightarrow> bool \<Rightarrow> string" where
  "nameExtractor name isName = skeleton_of (consonants name) (vowels name) isName"

text \<open>The rule of the specification: the chosen consonants, then the vowels, then
  \<open>X\<close> padding, cut to three.\<close>

definition chosen_consonants :: "string \<Rightarrow> bool \<Rightarrow> string" where
  "chosen_consonants cs isName =
     (if isName \<and> 4 \<le> length cs then [cs ! 0, cs ! 2, cs ! 3] else cs)"

definition skeleton_spec :: "string \<Rightarrow> string \<Rightarrow> bool \<Rightarrow> string" where
  "skeleton_spec cs vs isName = take 3 (chosen_consonants cs isName @ vs @ ''XXX'')"

definition is_vowel :: "char \<Rightarrow> bool" where
  "is_vowel c \<longleftrightarrow> c \<in> set ''AEIOU''"

section \<open>Lemmas\<close>

lemma vowel_fill_3:
  "(case length vs of 0 \<Rightarrow> ''XXX'' | Suc 0 \<Rightarrow> [vs ! 0] @ ''XX''
      | Suc (Suc 0) \<Rightarrow> [vs ! 0, vs ! 1] @ ''X'' | _ \<Rightarrow> [vs ! 0, vs ! 1, vs ! 2])
   = take 3 (vs @ ''XXX'')"
  by (cases vs rule: remdups_adj.cases; cases "drop 2 vs") (auto split: nat.split)

lemma vowel_fill_2:
  "(case length vs of 0 \<Rightarrow> ''XX'' | Suc 0 \<Rightarrow> [vs ! 0] @ ''X'' | _ \<Rightarrow> [vs ! 0, vs ! 1])
   = take 2 (vs @ ''XXX'')"
  by (cases vs rule: remdups_adj.cases) (auto split: nat.split)

lemma vowel_fill_1:
  "(case length vs of 0 \<Rightarrow> ''X'' | _ \<Rightarrow> [vs ! 0]) = take 1 (vs @ ''XXX'')"
  by (cases vs) (auto split: nat.split)

lemma skeleton_of_spec: "skeleton_of cs vs isName = skeleton_spec cs vs isName"
  unfolding skeleton_of_def skeleton_spec_def chosen_consonants_def
  by (simp only: vowel_fill_3 vowel_fill_2 vowel_fill_1)
     (auto split: nat.split simp: length_Suc_conv Suc_le_eq)

lemma length_skeleton_spec: "length (skeleton_spec cs vs isName) = 3"
  by (simp add: skeleton_spec_def chosen_consonants_def)

lemma nameExtractor_eq_spec: "nameExtractor name isName = skeleton_spec (consonants name) (vowels name) isName"
  by (simp add: nameExtractor_def skeleton_of_spec)

lemma name_chars_eq: "name_chars name = filter (\<lambda>c. c \<noteq> CHR '' '') (js_toUpperCase (js_trim name))"
  by (simp add: name_chars_def js_split_join)

lemma consonants_eq: "consonants name = filter (\<lambda>c. \<not> is_vowel c) (name_chars name)"
  by (simp add: consonants_def is_vowel_def)

lemma vowels_eq: "vowels name = filter is_vowel (name_chars name)"
  by (simp add: vowels_def is_vowel_def [abs_def])

lemma consonants_vowels_length: "length (consonants name) + length (vowels name) = length (name_chars name)"
  by (metis consonants_eq vowels_eq add.commute sum_length_filter_compl)

lemma set_chosen_consonants: "set (chosen_consonants cs isName) \<subseteq> set cs"
  by (auto simp: chosen_consonants_def intro!: nth_mem)

lemma set_skeleton_spec: "set (skeleton_spec cs vs isName) \<subseteq> set cs \<union> set vs \<union> {CHR ''X''}"
proof -
  have "set (skeleton_spec cs vs isName) \<subseteq> set (chosen_consonants cs isName @ vs @ ''XXX'')"
    unfolding skeleton_spec_def by (rule set_take_subset)
  with set_chosen_consonants show ?thesis by auto
qed

lemma name_chars_toLowerCase: "name_chars (js_toLowerCase name) = name_chars name"
  by (simp add: name_chars_eq js_trim_toLowerCase js_toUpperCase_toLowerCase)

lemma name_chars_upper:
  assumes "set nm \<subseteq> set upper_letters \<union> set lower_letters \<union> {CHR '' ''}"
  shows "set (name_chars nm) \<subseteq> set upper_letters"
proof
  fix c assume "c \<in> set (name_chars nm)"
  then obtain x where x: "x \<in> set (js_trim nm)" "c = js_char_toUpperCase x" "c \<noteq> CHR '' ''"
    by (auto simp: name_chars_eq js_toUpperCase_def)
  with assms set_js_trim have "x \<in> set upper_letters \<union> set lower_letters \<union> {CHR '' ''}" by blast
  moreover have "js_char_toUpperCase (CHR '' '') = CHR '' ''"
    by (simp add: js_char_toUpperCase_def alphabet_simps)
  ultimately show "c \<in> set upper_letters" using x
    by (auto simp: upper_toUpperCase lower_toUpperCase)
qed

lemma nameExtractor_upper:
  assumes "set nm \<subseteq> set upper_letters \<union> set lower_letters \<union> {CHR '' ''}"
  shows "set (nameExtractor nm b) \<subseteq> set upper_letters"
proof -
  have "CHR ''X'' \<in> set upper_letters" by (simp add: alphabet_simps)
  with name_chars_upper [OF assms] set_skeleton_spec [of "consonants nm" "vowels nm" b]
  show ?thesis
    by (auto simp: nameExtractor_eq_spec consonants_eq vowels_eq)
qed

section \<open>Properties of the name encoder\<close>

text \<open>C3. The switch of \<open>nameExtractor\<close> implements the rule of the specification:
  the skeleton is the first three characters of the chosen consonants (all of them, or the
  first, third and fourth for a given name with four or more), then the vowels in order,
  then \<open>X\<close> padding.\<close>

theorem nameExtractor_refines:
  "nameExtractor name isName =
     take 3 (chosen_consonants (consonants name) isName @ vowels name @ ''XXX'')"
  by (simp add: nameExtractor_eq_spec skeleton_spec_def)

text \<open>C8. The skeleton has exactly three characters, for every input string.\<close>

theorem nameExtractor_length_3: "length (nameExtractor name isName) = 3"
  by (simp add: nameExtractor_eq_spec length_skeleton_spec)

text \<open>C9. Given name against surname: with four or more consonants, the given-name skeleton
  takes consonants 1, 3 and 4 and the surname skeleton consonants 1, 2 and 3.\<close>

theorem nameExtractor_given_name_asymmetry:
  assumes "consonants name = c1 # c2 # c3 # c4 # more"
  shows "nameExtractor name True = [c1, c3, c4] \<and> nameExtractor name False = [c1, c2, c3]"
  using assms by (simp add: nameExtractor_eq_spec skeleton_spec_def chosen_consonants_def)

theorem nameExtractor_given_name_asymmetry_witness:
  "consonants ''Bcdf'' = CHR ''B'' # CHR ''C'' # CHR ''D'' # CHR ''F'' # [] \<and>
   nameExtractor ''Bcdf'' True = ''BDF'' \<and> nameExtractor ''Bcdf'' False = ''BCD''"
proof -
  have c: "consonants ''Bcdf'' = CHR ''B'' # CHR ''C'' # CHR ''D'' # CHR ''F'' # []"
    by code_simp
  show ?thesis using nameExtractor_given_name_asymmetry [OF c] c by simp
qed

text \<open>C18. The skeleton does not depend on the letter case of the input: the name typed in
  lower case gives the same skeleton.\<close>

theorem nameExtractor_case_insensitive:
  "nameExtractor (js_toLowerCase name) isName = nameExtractor name isName"
  by (simp add: nameExtractor_def consonants_def vowels_def name_chars_toLowerCase)

text \<open>C19. Every character of the skeleton is a character of the normalised name or the
  padding \<open>X\<close>.\<close>

theorem nameExtractor_chars:
  "set (nameExtractor name isName) \<subseteq> set (name_chars name) \<union> {CHR ''X''}"
proof -
  have "set (consonants name) \<union> set (vowels name) \<subseteq> set (name_chars name)"
    by (auto simp: consonants_eq vowels_eq)
  with set_skeleton_spec [of "consonants name" "vowels name" isName] show ?thesis
    by (auto simp: nameExtractor_eq_spec)
qed

text \<open>C20. Every character that is not one of A, E, I, O, U counts as a consonant, letters
  or not: a surname without vowels gives its first three characters, whatever they are
  (digits, hyphens, apostrophes), padded with \<open>X\<close>.\<close>

theorem nameExtractor_no_vowels:
  assumes "vowels name = []"
  shows "nameExtractor name False = take 3 (name_chars name @ ''XXX'')"
proof -
  from assms have "consonants name = name_chars name"
    by (simp add: consonants_eq vowels_eq filter_empty_conv)
  with assms show ?thesis
    by (simp add: nameExtractor_eq_spec skeleton_spec_def chosen_consonants_def)
qed

theorem nameExtractor_no_vowels_witness:
  "vowels ''4-2'' = [] \<and> nameExtractor ''4-2'' False = ''4-2''"
proof -
  have v: "vowels ''4-2'' = []" by code_simp
  have "name_chars ''4-2'' = ''4-2''" by code_simp
  with nameExtractor_no_vowels [OF v] v show ?thesis by simp
qed

text \<open>C27. Spaces anywhere in a name are ignored: removing them all gives the same
  skeleton, as the specification's preprocessing (trim, remove internal spaces) requires.\<close>

theorem nameExtractor_spaces:
  "nameExtractor (filter (\<lambda>c. c \<noteq> CHR '' '') nm) b = nameExtractor nm b"
proof -
  have "name_chars (filter (\<lambda>c. c \<noteq> CHR '' '') nm) = name_chars nm"
    by (simp add: name_chars_eq js_trim_filter_space js_toUpperCase_def filter_map comp_def
                  js_char_toUpperCase_space)
  then show ?thesis by (simp add: nameExtractor_def consonants_eq vowels_eq)
qed

end
