(* ===== verification/Check_Digit.thy ===== *)
theory Check_Digit
  imports Prelude
begin

text \<open>
  The check-character calculator: \<open>MainFormComponent.lastCode\<close> and its helpers
  \<open>oddsCalculator\<close>, \<open>evensCalculator\<close> and \<open>lastCodeCalculator\<close>
  (src/src/app/views/main-form/main-form.component.ts, lines 193--524).
  \<^item> \<open>partition_parity\<close> is the \<open>forEach\<close> of \<open>lastCode\<close>: the character at index
    \<open>i\<close> goes to \<open>evens\<close> when \<open>(i + 1) % 2 === 0\<close>, to \<open>odds\<close> otherwise;
  \<^item> the two 36-case \<open>switch\<close> statements are the tables \<open>oddsTable\<close> and
    \<open>evensTable\<close>; a character with no case adds nothing (the switches have no
    \<open>default\<close>), which \<open>oddValue\<close> and \<open>evenValue\<close> write as 0;
  \<^item> the 26-case \<open>switch\<close> of \<open>lastCodeCalculator\<close> is \<open>lastCodeTable\<close>; a number with
    no case leaves the result \<open>''''\<close>.
  \<open>check_value\<close> is the specification's weighted sum over 1-indexed odd and even
  positions; \<open>lastCode_refines\<close> shows the loop computes it.
\<close>

section \<open>Definitions\<close>

definition oddsTable :: "(char \<times> nat) list" where
  "oddsTable =
     [(CHR ''0'', 1), (CHR ''1'', 0), (CHR ''2'', 5), (CHR ''3'', 7), (CHR ''4'', 9),
      (CHR ''5'', 13), (CHR ''6'', 15), (CHR ''7'', 17), (CHR ''8'', 19), (CHR ''9'', 21),
      (CHR ''A'', 1), (CHR ''B'', 0), (CHR ''C'', 5), (CHR ''D'', 7), (CHR ''E'', 9),
      (CHR ''F'', 13), (CHR ''G'', 15), (CHR ''H'', 17), (CHR ''I'', 19), (CHR ''J'', 21),
      (CHR ''K'', 2), (CHR ''L'', 4), (CHR ''M'', 18), (CHR ''N'', 20), (CHR ''O'', 11),
      (CHR ''P'', 3), (CHR ''Q'', 6), (CHR ''R'', 8), (CHR ''S'', 12), (CHR ''T'', 14),
      (CHR ''U'', 16), (CHR ''V'', 10), (CHR ''W'', 22), (CHR ''X'', 25), (CHR ''Y'', 24),
      (CHR ''Z'', 23)]"

definition evensTable :: "(char \<times> nat) list" where
  "evensTable =
     [(CHR ''0'', 0), (CHR ''1'', 1), (CHR ''2'', 2), (CHR ''3'', 3), (CHR ''4'', 4),
      (CHR ''5'', 5), (CHR ''6'', 6), (CHR ''7'', 7), (CHR ''8'', 8), (CHR ''9'', 9),
      (CHR ''A'', 0), (CHR ''B'', 1), (CHR ''C'', 2), (CHR ''D'', 3), (CHR ''E'', 4),
      (CHR ''F'', 5), (CHR ''G'', 6), (CHR ''H'', 7), (CHR ''I'', 8), (CHR ''J'', 9),
      (CHR ''K'', 10), (CHR ''L'', 11), (CHR ''M'', 12), (CHR ''N'', 13), (CHR ''O'', 14),
      (CHR ''P'', 15), (CHR ''Q'', 16), (CHR ''R'', 17), (CHR ''S'', 18), (CHR ''T'', 19),
      (CHR ''U'', 20), (CHR ''V'', 21), (CHR ''W'', 22), (CHR ''X'', 23), (CHR ''Y'', 24),
      (CHR ''Z'', 25)]"

definition oddValue :: "char \<Rightarrow> nat" where
  "oddValue element = (case map_of oddsTable element of Some v \<Rightarrow> v | None \<Rightarrow> 0)"

definition evenValue :: "char \<Rightarrow> nat" where
  "evenValue element = (case map_of evensTable element of Some v \<Rightarrow> v | None \<Rightarrow> 0)"

definition oddsCalculator :: "string \<Rightarrow> nat" where
  "oddsCalculator odds = foldl (\<lambda>result element. result + oddValue element) 0 odds"

definition evensCalculator :: "string \<Rightarrow> nat" where
  "evensCalculator evens = foldl (\<lambda>result element. result + evenValue element) 0 evens"

definition lastCodeTable :: "(nat \<times> char) list" where
  "lastCodeTable = zip [0..<26] ''ABCDEFGHIJKLMNOPQRSTUVWXYZ''"

definition lastCodeCalculator :: "nat \<Rightarrow> string" where
  "lastCodeCalculator number =
     (case map_of lastCodeTable number of Some c \<Rightarrow> [c] | None \<Rightarrow> '''')"

fun partition_parity :: "nat \<Rightarrow> string \<Rightarrow> string \<Rightarrow> string \<Rightarrow> string \<times> string" where
  "partition_parity index [] odds evens = (odds, evens)"
| "partition_parity index (element # rest) odds evens =
     (if (index + 1) mod 2 = 0 then partition_parity (index + 1) rest odds (evens @ [element])
      else partition_parity (index + 1) rest (odds @ [element]) evens)"

definition lastCode :: "string \<Rightarrow> string" where
  "lastCode partialCode =
     (let (odds, evens) = partition_parity 0 partialCode [] [];
          number = (oddsCalculator odds + evensCalculator evens) mod 26
      in lastCodeCalculator number)"

text \<open>The specification: the odd-position table on the 1st, 3rd, \<open>\<dots>\<close> characters (even
  0-based index), the even-position table on the others.\<close>

definition check_value :: "string \<Rightarrow> nat" where
  "check_value s = (\<Sum>k<length s. if even k then oddValue (s ! k) else evenValue (s ! k))"

section \<open>Lemmas\<close>
lemma foldl_add_sum_list: "foldl (\<lambda>r x. r + f x) a xs = a + sum_list (map f xs)"
  by (induction xs arbitrary: a) (simp_all add: add.assoc)

lemma oddsCalculator_sum: "oddsCalculator xs = sum_list (map oddValue xs)"
  by (simp add: oddsCalculator_def foldl_add_sum_list)

lemma evensCalculator_sum: "evensCalculator xs = sum_list (map evenValue xs)"
  by (simp add: evensCalculator_def foldl_add_sum_list)

abbreviation parity_weight :: "nat \<Rightarrow> char \<Rightarrow> nat" where
  "parity_weight k c \<equiv> (if even k then oddValue c else evenValue c)"

lemma partition_parity_sums:
  "partition_parity i s os es = (os', es') \<Longrightarrow>
   sum_list (map oddValue os') + sum_list (map evenValue es') =
   sum_list (map oddValue os) + sum_list (map evenValue es) + (\<Sum>k<length s. parity_weight (i + k) (s ! k))"
proof (induction i s os es arbitrary: os' es' rule: partition_parity.induct)
  case (1 index odds evens)
  then show ?case by simp
next
  case (2 index element rest odds evens)
  show ?case
  proof (cases "(index + 1) mod 2 = 0")
    case True
    with "2.prems" have p: "partition_parity (index + 1) rest odds (evens @ [element]) = (os', es')" by simp
    have IH: "sum_list (map oddValue os') + sum_list (map evenValue es') =
      sum_list (map oddValue odds) + sum_list (map evenValue (evens @ [element])) +
      (\<Sum>k<length rest. parity_weight (index + 1 + k) (rest ! k))" by (rule "2.IH"(1) [OF True p])
    from True have "odd index" by presburger
    with IH show ?thesis by (simp del: sum.lessThan_Suc add: sum.lessThan_Suc_shift cong: if_cong)
  next
    case False
    with "2.prems" have p: "partition_parity (index + 1) rest (odds @ [element]) evens = (os', es')" by simp
    have IH: "sum_list (map oddValue os') + sum_list (map evenValue es') =
      sum_list (map oddValue (odds @ [element])) + sum_list (map evenValue evens) +
      (\<Sum>k<length rest. parity_weight (index + 1 + k) (rest ! k))" by (rule "2.IH"(2) [OF False p])
    from False have "even index" by presburger
    with IH show ?thesis by (simp del: sum.lessThan_Suc add: sum.lessThan_Suc_shift cong: if_cong)
  qed
qed

lemma lastCodeTable_lookup: "n < 26 \<Longrightarrow> map_of lastCodeTable n = Some (upper_letters ! n)"
  using map_of_zip_nth [of "[0..<26]" "upper_letters" n]
  by (simp add: lastCodeTable_def upper_letters_def)

lemma lastCodeCalculator_letter: "n < 26 \<Longrightarrow> lastCodeCalculator n = [upper_letters ! n]"
  by (simp add: lastCodeCalculator_def lastCodeTable_lookup)

lemma lastCode_check_value: "lastCode s = lastCodeCalculator (check_value s mod 26)"
proof -
  obtain os es where p: "partition_parity 0 s [] [] = (os, es)" by fastforce
  then have "oddsCalculator os + evensCalculator es = check_value s"
    using partition_parity_sums [OF p]
    by (simp add: oddsCalculator_sum evensCalculator_sum check_value_def)
  with p show ?thesis by (simp add: lastCode_def)
qed

lemma lastCode_upper: "lastCode s = [upper_letters ! (check_value s mod 26)]"
  by (simp add: lastCode_check_value lastCodeCalculator_letter)

lemma length_lastCode [simp]: "length (lastCode s) = 1"
  by (simp add: lastCode_upper)

lemma mod26_shift:
  assumes "x < 26" "y < (26::nat)"
  shows "(x + y) mod 26 = (if x + y < 26 then x + y else x + y - 26)"
proof (cases "x + y < 26")
  case True
  then show ?thesis by simp
next
  case False
  then have "(x + y) mod 26 = (x + y - 26) mod 26" by (simp add: le_mod_geq)
  also have "\<dots> = x + y - 26" using assms by simp
  finally show ?thesis using False by simp
qed

lemma mod26_add_cancel:
  assumes "(a + r) mod 26 = (b + r) mod 26" "a < 26" "b < (26::nat)"
  shows "a = b"
proof -
  have eq: "(a + r mod 26) mod 26 = (b + r mod 26) mod 26"
    using assms(1) by (metis mod_add_right_eq)
  have "r mod 26 < 26" by simp
  with eq assms(2,3) show ?thesis
    by (simp only: mod26_shift) (auto split: if_splits)
qed

lemma oddsTable_keys: "map fst oddsTable = decimal_digits @ upper_letters"
  and evensTable_keys: "map fst evensTable = decimal_digits @ upper_letters"
  by (simp_all add: oddsTable_def evensTable_def alphabet_simps)

lemma table_value_other:
  assumes "map fst tbl = decimal_digits @ upper_letters" "c \<notin> set decimal_digits" "c \<notin> set upper_letters"
  shows "map_of tbl c = None"
proof -
  have "c \<notin> fst ` set tbl"
    using assms by (metis Un_iff list.set_map set_append)
  then show ?thesis by (simp add: map_of_eq_None_iff)
qed

lemma values_other:
  "c \<notin> set decimal_digits \<Longrightarrow> c \<notin> set upper_letters \<Longrightarrow> oddValue c = 0 \<and> evenValue c = 0"
  by (simp add: oddValue_def evenValue_def table_value_other oddsTable_keys evensTable_keys)

lemma distinct_values:
  "distinct (map oddValue upper_letters)" "distinct (map evenValue upper_letters)"
  "distinct (map oddValue decimal_digits)" "distinct (map evenValue decimal_digits)"
  by code_simp+

lemma values_below_26:
  "list_all (\<lambda>c. oddValue c < 26 \<and> evenValue c < 26) (decimal_digits @ upper_letters)"
  by code_simp

lemma value_bounds: "oddValue c < 26 \<and> evenValue c < 26"
proof (cases "c \<in> set decimal_digits \<or> c \<in> set upper_letters")
  case True
  with values_below_26 show ?thesis by (auto simp: list_all_iff)
next
  case False
  with values_other show ?thesis by simp
qed

lemma parity_weight_inj:
  assumes "(a \<in> set upper_letters \<and> b \<in> set upper_letters) \<or>
           (a \<in> set decimal_digits \<and> b \<in> set decimal_digits)"
    and "parity_weight k a = parity_weight k b"
  shows "a = b"
proof -
  have "inj_on oddValue (set upper_letters)" "inj_on evenValue (set upper_letters)"
       "inj_on oddValue (set decimal_digits)" "inj_on evenValue (set decimal_digits)"
    using distinct_values by (simp_all add: distinct_map)
  with assms show ?thesis by (auto simp: inj_on_def split: if_splits)
qed

lemma upper_letters_nth_inj: "a < 26 \<Longrightarrow> b < 26 \<Longrightarrow> upper_letters ! a = upper_letters ! b \<Longrightarrow> a = b"
  using nth_eq_iff_index_eq [of upper_letters a b] by (simp add: alphabet_simps)

lemma nth_same_except:
  "\<forall>j<length (xs @ a # ys). j \<noteq> length xs \<longrightarrow> (xs @ b # ys) ! j = (xs @ a # ys) ! j"
  by (auto simp: nth_append nth_Cons split: nat.split)

lemma check_value_split:
  assumes "i < length s"
  shows "check_value s = parity_weight i (s ! i) + (\<Sum>k\<in>{..<length s} - {i}. parity_weight k (s ! k))"
  using assms by (simp add: check_value_def sum.remove)

lemma check_value_same_weight:
  assumes "parity_weight (length xs) a = parity_weight (length xs) b"
  shows "check_value (xs @ a # ys) = check_value (xs @ b # ys)"
proof -
  let ?s = "xs @ a # ys" and ?t = "xs @ b # ys" and ?i = "length xs"
  have rest: "(\<Sum>k\<in>{..<length ?t} - {?i}. parity_weight k (?t ! k)) =
              (\<Sum>k\<in>{..<length ?s} - {?i}. parity_weight k (?s ! k))"
    using nth_same_except [of xs a ys b] by (intro sum.cong) auto
  show ?thesis
    using check_value_split [of ?i ?s] check_value_split [of ?i ?t] rest assms
    by (simp split: if_splits)
qed

section \<open>Properties of the check character\<close>

text \<open>C2. \<open>lastCode\<close> computes the specification's check character: the odd-position
  table summed over the 1st, 3rd, \<open>\<dots>\<close> characters plus the even-position table summed
  over the 2nd, 4th, \<open>\<dots>\<close>, modulo 26, as a letter.\<close>

theorem lastCode_refines:
  "lastCode s = [upper_letters ! ((\<Sum>k<length s. if even k then oddValue (s ! k) else evenValue (s ! k)) mod 26)]"
  using lastCode_upper by (simp add: check_value_def)

text \<open>C10. For every input string, \<open>lastCode\<close> returns exactly one upper-case letter.\<close>

theorem lastCode_one_letter: "length (lastCode s) = 1 \<and> set (lastCode s) \<subseteq> set upper_letters"
proof -
  have "check_value s mod 26 < length upper_letters" by (simp add: alphabet_simps)
  then show ?thesis by (simp add: lastCode_upper)
qed

text \<open>C11. The check character detects the change of one character into another of the
  same class (letter for letter, digit for digit) at any position.\<close>

theorem lastCode_detects_substitution:
  assumes len: "length s' = length s" and i: "i < length s" and diff: "s' ! i \<noteq> s ! i"
    and same: "\<forall>j<length s. j \<noteq> i \<longrightarrow> s' ! j = s ! j"
    and cls: "(s' ! i \<in> set upper_letters \<and> s ! i \<in> set upper_letters) \<or>
              (s' ! i \<in> set decimal_digits \<and> s ! i \<in> set decimal_digits)"
  shows "lastCode s' \<noteq> lastCode s"
proof
  assume eq: "lastCode s' = lastCode s"
  let ?R = "\<Sum>k\<in>{..<length s} - {i}. parity_weight k (s ! k)"
  have rest: "(\<Sum>k\<in>{..<length s'} - {i}. parity_weight k (s' ! k)) = ?R"
    using len same by (intro sum.cong) auto
  have "check_value s' mod 26 = check_value s mod 26"
    using eq by (auto simp: lastCode_upper intro: upper_letters_nth_inj)
  then have "(parity_weight i (s' ! i) + ?R) mod 26 = (parity_weight i (s ! i) + ?R) mod 26"
    using check_value_split [of i s'] check_value_split [of i s] i len rest by simp
  then have "parity_weight i (s' ! i) = parity_weight i (s ! i)"
    by (rule mod26_add_cancel) (simp_all add: value_bounds)
  with cls have "s' ! i = s ! i" by (rule parity_weight_inj)
  with diff show False by contradiction
qed

theorem lastCode_detects_substitution_witness:
  "length ''RSSMRA80C12H502'' = length ''RSSMRA80C12H501'' \<and> 14 < length ''RSSMRA80C12H501'' \<and>
   ''RSSMRA80C12H502'' ! 14 \<noteq> ''RSSMRA80C12H501'' ! 14 \<and>
   lastCode ''RSSMRA80C12H502'' \<noteq> lastCode ''RSSMRA80C12H501''"
proof -
  have same: "\<forall>j<length ''RSSMRA80C12H501''. j \<noteq> 14 \<longrightarrow> ''RSSMRA80C12H502'' ! j = ''RSSMRA80C12H501'' ! j"
    using nth_same_except [of "''RSSMRA80C12H50''" "CHR ''1''" "[]" "CHR ''2''"] by simp
  have h: "length ''RSSMRA80C12H502'' = length ''RSSMRA80C12H501''" "14 < length ''RSSMRA80C12H501''"
    "''RSSMRA80C12H502'' ! 14 \<noteq> ''RSSMRA80C12H501'' ! 14"
    "(''RSSMRA80C12H502'' ! 14 \<in> set upper_letters \<and> ''RSSMRA80C12H501'' ! 14 \<in> set upper_letters) \<or>
     (''RSSMRA80C12H502'' ! 14 \<in> set decimal_digits \<and> ''RSSMRA80C12H501'' ! 14 \<in> set decimal_digits)"
    by (simp_all add: alphabet_simps)
  from lastCode_detects_substitution [OF h(1,2,3) same h(4)] h(1,2,3) same show ?thesis by blast
qed

text \<open>C12. The even-position switch is the arithmetic rule of the specification: a digit
  counts its own value, a letter its 0-based place in the alphabet, anything else 0.\<close>

theorem evenValue_arith:
  "evenValue c = (if c \<in> set decimal_digits then of_char c - 48
                  else if c \<in> set upper_letters then of_char c - 65 else 0)"
proof -
  have "list_all (\<lambda>c. evenValue c = of_char c - 48) decimal_digits"
    by code_simp
  moreover have "list_all (\<lambda>c. evenValue c = of_char c - 65) upper_letters"
    by code_simp
  ultimately show ?thesis
    using values_other [of c] by (auto simp: list_all_iff)
qed

text \<open>C13. A character outside the 36-symbol alphabet (a lower-case letter, a hyphen, an
  apostrophe) falls through both switches and adds nothing: \<open>lastCode\<close> silently gives
  the character of the string with \<open>B\<close> in its place on an odd position (1-indexed) and
  \<open>A\<close> on an even one, the two symbols worth 0 there.\<close>

theorem lastCode_out_of_alphabet:
  assumes "c \<notin> set decimal_digits" "c \<notin> set upper_letters"
  shows "lastCode (xs @ c # ys) =
         lastCode (xs @ (if even (length xs) then CHR ''B'' else CHR ''A'') # ys)"
proof -
  let ?z = "if even (length xs) then CHR ''B'' else CHR ''A''"
  have "oddValue (CHR ''B'') = 0" "evenValue (CHR ''A'') = 0" by code_simp+
  with values_other [OF assms] have "parity_weight (length xs) c = parity_weight (length xs) ?z"
    by simp
  then have "check_value (xs @ c # ys) = check_value (xs @ ?z # ys)"
    by (rule check_value_same_weight)
  then show ?thesis by (simp add: lastCode_upper)
qed

theorem lastCode_out_of_alphabet_witness:
  "CHR ''-'' \<notin> set decimal_digits \<and> CHR ''-'' \<notin> set upper_letters \<and>
   lastCode (''D'' @ CHR ''-'' # ''LRSS80A01H501'') = lastCode ''DALRSS80A01H501''"
proof -
  have h: "CHR ''-'' \<notin> set decimal_digits" "CHR ''-'' \<notin> set upper_letters"
    by (simp_all add: alphabet_simps)
  from lastCode_out_of_alphabet [OF h, of "''D''" "''LRSS80A01H501''"] h show ?thesis by simp
qed

end
