(* ===== verification/Date_Encoder.thy ===== *)
theory Date_Encoder
  imports Prelude
begin

text \<open>
  The date and sex encoder: \<open>MainFormComponent.dateAndSexExtractor\<close> and
  \<open>MainFormComponent.addZero\<close> (src/src/app/views/main-form/main-form.component.ts,
  lines 133--187), and the type \<open>Sex\<close> of src/src/app/models/user.ts.
  A JavaScript \<open>Date\<close> is read only through \<open>getFullYear\<close>, \<open>getMonth\<close> (0-based)
  and \<open>getDate\<close>, so it is the record \<open>js_date\<close> of these three values.
  The year part is \<open>String(year).split('').splice(2, 2).join('')\<close>: the characters at
  indices 2 and 3 of the decimal year, which are its last two digits only for a four-digit
  year. The month \<open>switch\<close> has no \<open>default\<close>: a month outside 0..11 adds nothing.
  \<open>decode_date_token\<close> is not code: it is the specification's reading of a token, used
  to state that the token loses nothing but the century.
\<close>

section \<open>Definitions\<close>

datatype sex = male | female

record js_date =
  getFullYear :: int
  getMonth :: nat
  getDate :: nat

definition monthTable :: "(nat \<times> char) list" where
  "monthTable =
     [(0, CHR ''A''), (1, CHR ''B''), (2, CHR ''C''), (3, CHR ''D''), (4, CHR ''E''),
      (5, CHR ''H''), (6, CHR ''L''), (7, CHR ''M''), (8, CHR ''P''), (9, CHR ''R''),
      (10, CHR ''S''), (11, CHR ''T'')]"

definition month_letter :: "nat \<Rightarrow> string" where
  "month_letter m = (case map_of monthTable m of Some c \<Rightarrow> [c] | None \<Rightarrow> [])"

definition addZero :: "nat \<Rightarrow> string" where
  "addZero number = (if number < 10 then CHR ''0'' # string_of_nat number else string_of_nat number)"

definition year_digits :: "int \<Rightarrow> string" where
  "year_digits y = js_join [] (js_splice_removed 2 2 (map (\<lambda>c. [c]) (js_string_of_int y)))"

definition dateAndSexExtractor :: "js_date \<Rightarrow> sex \<Rightarrow> string" where
  "dateAndSexExtractor date s =
     (let result = year_digits (getFullYear date) @ month_letter (getMonth date);
          day = (if s = female then getDate date + 40 else getDate date)
      in result @ addZero day)"

text \<open>The day field before padding: \<open>date.getDate()\<close>, plus 40 for a female.\<close>

definition day_field :: "js_date \<Rightarrow> sex \<Rightarrow> nat" where
  "day_field d s = (if s = female then getDate d + 40 else getDate d)"

text \<open>The calendar dates the encoder is meant for, with a four-digit year.\<close>

definition valid_date :: "js_date \<Rightarrow> bool" where
  "valid_date d \<longleftrightarrow> 1000 \<le> getFullYear d \<and> getFullYear d < 10000 \<and> getMonth d < 12 \<and>
                     1 \<le> getDate d \<and> getDate d \<le> 31"

text \<open>The specification's reading of a token: the year digits, the month letter's index
  in the table and the day field, a value above 40 meaning a female.\<close>

definition decode_date_token :: "string \<Rightarrow> (nat \<times> nat \<times> nat \<times> sex) option" where
  "decode_date_token t =
     (case map_of (zip ''ABCDEHLMPRST'' [0..<12]) (t ! 2) of
        None \<Rightarrow> None
      | Some m \<Rightarrow>
          (let dd = nat_of_string (drop 3 t)
           in Some (nat_of_string (take 2 t), m, if 40 < dd then dd - 40 else dd,
                    if 40 < dd then female else male)))"

section \<open>Lemmas\<close>

lemma concat_map_singleton: "concat (map (\<lambda>c. [c]) xs) = xs"
  by (induction xs) simp_all

lemma year_digits_eq: "year_digits y = take 2 (drop 2 (js_string_of_int y))"
  by (simp add: year_digits_def js_splice_removed_def js_join_nil_sep drop_map take_map concat_map_singleton)

lemma mod_100_digits: "(n::nat) mod 100 div 10 = n div 10 mod 10" "(n::nat) mod 100 mod 10 = n mod 10"
proof -
  have "n mod 100 = 10 * (n div 10 mod 10) + n mod 10"
    using mod_mult2_eq [of n 10 10] by simp
  then show "n mod 100 div 10 = n div 10 mod 10" by simp
  show "n mod 100 mod 10 = n mod 10" by (simp add: mod_mod_cancel)
qed

lemma digit_char_0: "digit_char 0 = CHR ''0''"
  by (simp add: digit_char_def decimal_digits_def)

lemma addZero_two_digits:
  assumes "n < 100"
  shows "addZero n = [digit_char (n div 10), digit_char (n mod 10)]"
proof (cases "n < 10")
  case True
  then show ?thesis by (simp add: addZero_def string_of_nat_small digit_char_0)
next
  case False
  with assms show ?thesis by (simp add: addZero_def string_of_nat_two_digits)
qed

lemma year_digits_four:
  assumes "1000 \<le> y" "y < 10000"
  shows "year_digits y = addZero (nat y mod 100)"
proof -
  have "js_string_of_int y = string_of_nat (nat y)"
    using assms by (simp add: js_string_of_int_def)
  moreover have "1000 \<le> nat y" "nat y < 10000" using assms by simp_all
  ultimately show ?thesis
    by (simp add: year_digits_eq string_of_nat_four_digits addZero_two_digits mod_100_digits)
qed

lemma year_digits_three:
  assumes "100 \<le> y" "y < 1000"
  shows "length (year_digits y) = 1"
proof -
  have "js_string_of_int y = string_of_nat (nat y)"
    using assms by (simp add: js_string_of_int_def)
  moreover have "100 \<le> nat y" "nat y < 1000" using assms by simp_all
  ultimately show ?thesis
    by (simp add: year_digits_eq string_of_nat_three_digits)
qed

lemma monthTable_zip: "monthTable = zip [0..<12] ''ABCDEHLMPRST''"
  by code_simp

lemma month_letter_eq: "month_letter m = (if m < 12 then [''ABCDEHLMPRST'' ! m] else [])"
proof (cases "m < 12")
  case True
  then have "map_of monthTable m = Some (''ABCDEHLMPRST'' ! m)"
    using map_of_zip_nth [of "[0..<12]" "''ABCDEHLMPRST''" m] by (simp add: monthTable_zip)
  with True show ?thesis by (simp add: month_letter_def)
next
  case False
  then show ?thesis by (simp add: month_letter_def monthTable_zip map_of_zip_notin)
qed

lemma length_addZero: "n < 100 \<Longrightarrow> length (addZero n) = 2"
  by (simp add: addZero_two_digits)

lemma nat_of_string_addZero: "nat_of_string (addZero n) = n"
proof -
  have "nat_of_string (CHR ''0'' # s) = nat_of_string s" for s
    by (simp add: nat_of_string_def)
  then show ?thesis by (simp add: addZero_def nat_of_string_string_of_nat)
qed

lemma dateAndSexExtractor_valid:
  assumes "valid_date d"
  shows "dateAndSexExtractor d s =
           addZero (nat (getFullYear d) mod 100) @ [''ABCDEHLMPRST'' ! getMonth d] @
           addZero (if s = female then getDate d + 40 else getDate d)"
  using assms by (simp add: valid_date_def dateAndSexExtractor_def year_digits_four month_letter_eq)

lemma set_addZero: "n < 100 \<Longrightarrow> set (addZero n) \<subseteq> set decimal_digits"
  by (simp add: addZero_two_digits digit_char_mem)

lemma dateAndSexExtractor_alnum:
  assumes "valid_date d"
  shows "set (dateAndSexExtractor d s) \<subseteq> set upper_letters \<union> set decimal_digits"
proof -
  have "day_field d s < 100" using assms by (simp add: valid_date_def day_field_def)
  moreover have "''ABCDEHLMPRST'' ! getMonth d \<in> set upper_letters"
  proof -
    have "set ''ABCDEHLMPRST'' \<subseteq> set upper_letters" by (simp add: alphabet_simps)
    moreover have "''ABCDEHLMPRST'' ! getMonth d \<in> set ''ABCDEHLMPRST''"
      using assms unfolding valid_date_def by (intro nth_mem) simp
    ultimately show ?thesis by blast
  qed
  ultimately show ?thesis using assms set_addZero [of "nat (getFullYear d) mod 100"]
    set_addZero [of "day_field d s"]
    by (auto simp: dateAndSexExtractor_valid day_field_def [symmetric])
qed

lemma month_index: "m < 12 \<Longrightarrow> map_of (zip ''ABCDEHLMPRST'' [0..<12]) (''ABCDEHLMPRST'' ! m) = Some m"
  using map_of_zip_nth [of "''ABCDEHLMPRST''" "[0..<12]" m] by simp

section \<open>Properties of the date and sex encoder\<close>

text \<open>C4. On a calendar date with a four-digit year, the token is the last two digits of
  the year, the month letter of the table, and the day (plus 40 for a female) as two
  digits with a leading zero.\<close>

theorem dateAndSexExtractor_token:
  assumes "valid_date d"
  shows "dateAndSexExtractor d s =
           [digit_char (nat (getFullYear d) div 10 mod 10), digit_char (nat (getFullYear d) mod 10),
            ''ABCDEHLMPRST'' ! getMonth d,
            digit_char (day_field d s div 10), digit_char (day_field d s mod 10)]"
proof -
  have "day_field d s < 100" using assms by (simp add: valid_date_def day_field_def)
  with assms show ?thesis
    by (simp add: dateAndSexExtractor_valid addZero_two_digits mod_100_digits day_field_def)
qed

theorem dateAndSexExtractor_token_witness:
  "valid_date \<lparr>getFullYear = 1980, getMonth = 2, getDate = 12\<rparr> \<and>
   dateAndSexExtractor \<lparr>getFullYear = 1980, getMonth = 2, getDate = 12\<rparr> male = ''80C12''"
proof -
  have v: "valid_date \<lparr>getFullYear = 1980, getMonth = 2, getDate = 12\<rparr>"
    by (simp add: valid_date_def)
  show ?thesis
    using dateAndSexExtractor_token [OF v, of male] v by (simp add: day_field_def digit_char_def decimal_digits_def)
qed

text \<open>C14. On a calendar date with a four-digit year the token has five characters.\<close>

theorem dateAndSexExtractor_length_5:
  assumes "valid_date d"
  shows "length (dateAndSexExtractor d s) = 5"
proof -
  have "day_field d s < 100" using assms by (simp add: valid_date_def day_field_def)
  with assms show ?thesis
    by (simp add: dateAndSexExtractor_valid length_addZero day_field_def [symmetric])
qed

theorem dateAndSexExtractor_length_5_witness:
  "valid_date \<lparr>getFullYear = 2005, getMonth = 11, getDate = 31\<rparr> \<and>
   length (dateAndSexExtractor \<lparr>getFullYear = 2005, getMonth = 11, getDate = 31\<rparr> female) = 5"
proof -
  have v: "valid_date \<lparr>getFullYear = 2005, getMonth = 11, getDate = 31\<rparr>"
    by (simp add: valid_date_def)
  show ?thesis using dateAndSexExtractor_length_5 [OF v, of female] v by simp
qed

text \<open>C15. The year part takes the characters at indices 2 and 3 of the decimal year, not
  its last two digits: for a year of three digits the token has four characters and every
  later character of the fiscal code moves one place.\<close>

theorem dateAndSexExtractor_three_digit_year:
  assumes "100 \<le> getFullYear d" "getFullYear d < 1000" "getMonth d < 12" "getDate d \<le> 31"
  shows "length (dateAndSexExtractor d s) = 4"
proof -
  have "day_field d s < 100" using assms by (simp add: day_field_def)
  with assms show ?thesis
    by (simp add: dateAndSexExtractor_def year_digits_three month_letter_eq length_addZero
                  day_field_def [symmetric])
qed

theorem dateAndSexExtractor_three_digit_year_witness:
  "dateAndSexExtractor \<lparr>getFullYear = 999, getMonth = 0, getDate = 5\<rparr> male = ''9A05'' \<and>
   length (dateAndSexExtractor \<lparr>getFullYear = 999, getMonth = 0, getDate = 5\<rparr> male) = 4"
proof -
  have h: "100 \<le> getFullYear \<lparr>getFullYear = 999, getMonth = 0, getDate = 5\<rparr>"
    "getFullYear \<lparr>getFullYear = 999, getMonth = 0, getDate = 5\<rparr> < 1000"
    "getMonth \<lparr>getFullYear = 999, getMonth = 0, getDate = 5\<rparr> < 12"
    "getDate \<lparr>getFullYear = 999, getMonth = 0, getDate = 5\<rparr> \<le> 31" by simp_all
  have "dateAndSexExtractor \<lparr>getFullYear = 999, getMonth = 0, getDate = 5\<rparr> male = ''9A05''"
    by code_simp
  with dateAndSexExtractor_three_digit_year [OF h, of male] show ?thesis by simp
qed

text \<open>C16. The month letter identifies the month: two months of 0..11 with the same letter
  are the same month.\<close>

theorem month_letter_inj:
  assumes "m < 12" "m' < 12" "month_letter m = month_letter m'"
  shows "m = m'"
proof -
  have "distinct ''ABCDEHLMPRST''" by simp
  with assms show ?thesis by (simp add: month_letter_eq nth_eq_iff_index_eq)
qed

theorem month_letter_inj_witness:
  "(5::nat) < 12 \<and> (5::nat) < 12 \<and> month_letter 5 = month_letter 5 \<and> month_letter 5 = ''H'' \<and>
   month_letter 11 = ''T''"
proof -
  have "(5::nat) = 5" by (rule month_letter_inj) simp_all
  moreover have "month_letter 5 = ''H''" "month_letter 11 = ''T''" by code_simp+
  ultimately show ?thesis by simp
qed

text \<open>C17. Round trip of the day field: on a calendar date the number read back from the
  last two characters of the token is the day, plus 40 exactly for a female.\<close>

theorem dateAndSexExtractor_day_roundtrip:
  assumes "valid_date d"
  shows "nat_of_string (drop 3 (dateAndSexExtractor d s)) = day_field d s \<and>
         (40 < day_field d s \<longleftrightarrow> s = female)"
proof -
  have "length (addZero (nat (getFullYear d) mod 100)) = 2" by (simp add: length_addZero)
  with assms show ?thesis
    by (simp add: dateAndSexExtractor_valid nat_of_string_addZero day_field_def [symmetric])
       (auto simp: day_field_def valid_date_def)
qed

theorem dateAndSexExtractor_day_roundtrip_witness:
  "valid_date \<lparr>getFullYear = 1990, getMonth = 0, getDate = 5\<rparr> \<and>
   nat_of_string (drop 3 (dateAndSexExtractor \<lparr>getFullYear = 1990, getMonth = 0, getDate = 5\<rparr> female)) = 45"
proof -
  have v: "valid_date \<lparr>getFullYear = 1990, getMonth = 0, getDate = 5\<rparr>"
    by (simp add: valid_date_def)
  show ?thesis using dateAndSexExtractor_day_roundtrip [OF v, of female] v by (simp add: day_field_def)
qed

text \<open>C26. Round trip of the whole token: on a calendar date with a four-digit year, the
  specification's reading of the token gives back the last two digits of the year, the
  month, the day and the sex.\<close>

theorem dateAndSexExtractor_decode:
  assumes "valid_date d"
  shows "decode_date_token (dateAndSexExtractor d s) = Some (nat (getFullYear d) mod 100, getMonth d, getDate d, s)"
proof -
  have y: "length (addZero (nat (getFullYear d) mod 100)) = 2" by (simp add: length_addZero)
  have m: "map_of (zip ''ABCDEHLMPRST'' [0..<12]) (''ABCDEHLMPRST'' ! getMonth d) = Some (getMonth d)"
    using assms by (simp add: valid_date_def month_index del: map_of.simps zip_Cons_Cons upt_Suc)
  have "40 < day_field d s \<longleftrightarrow> s = female" "(if 40 < day_field d s then day_field d s - 40 else day_field d s) = getDate d"
    using assms by (auto simp: day_field_def valid_date_def)
  with y m assms show ?thesis
    by (cases s) (simp_all add: decode_date_token_def dateAndSexExtractor_valid nth_append nat_of_string_addZero
                  day_field_def [symmetric] del: map_of.simps zip_Cons_Cons upt_Suc)
qed

theorem dateAndSexExtractor_decode_witness:
  "valid_date \<lparr>getFullYear = 1990, getMonth = 0, getDate = 5\<rparr> \<and>
   dateAndSexExtractor \<lparr>getFullYear = 1990, getMonth = 0, getDate = 5\<rparr> female = ''90A45'' \<and>
   decode_date_token ''90A45'' = Some (90, 0, 5, female)"
proof -
  have v: "valid_date \<lparr>getFullYear = 1990, getMonth = 0, getDate = 5\<rparr>"
    by (simp add: valid_date_def)
  have t: "dateAndSexExtractor \<lparr>getFullYear = 1990, getMonth = 0, getDate = 5\<rparr> female = ''90A45''"
    by code_simp
  from dateAndSexExtractor_decode [OF v, of female] v t show ?thesis by simp
qed

end
