(* ===== verification/City_Data.thy ===== *)
theory City_Data
  imports Prelude Complex_Main
begin

text \<open>
  The municipality data and the operations on it:
  \<^item> the interfaces of src/src/app/models/city.ts as records (\<open>Coordinate\<close>,
    \<open>CityResponse\<close>, \<open>DistrictResponse\<close>, \<open>City\<close>);
  \<^item> \<open>apiRequest_loop\<close>: the \<open>forEach\<close> inside the nested \<open>subscribe\<close> callbacks of
    \<open>MainFormComponent.apiRequest\<close> (main-form.component.ts, lines 35--41), which joins each
    municipality with its province by \<open>codice = provincia\<close> and pushes the display name
    \<open>nome (sigla)\<close> and the cadastral code onto the component's \<open>cityList\<close> and
    \<open>options\<close> arrays, given here and returned;
  \<^item> \<open>cityCodeExtractor\<close> (lines 189--191): \<open>Array.find\<close> by exact name, \<open>?.code\<close>;
  \<^item> \<open>autoCompleteValidator\<close> (src/src/app/validators/autocomplete-validator.ts):
    \<open>options.find(e => e === value)\<close> used as a truth value;
  \<^item> \<open>filterOptions\<close>: the private \<open>_filter\<close> of the autocomplete (lines 53--56).
  The HTTP requests of \<open>CityApiService\<close> are not modelled: the callback receives their
  responses as lists.
\<close>

section \<open>Definitions\<close>

record coordinate =
  lat :: real
  lng :: real

record cityResponse =
  cap :: string
  codice :: string
  codiceCatastale :: string
  coordinate :: coordinate
  nome :: string
  nomeStraniero :: "string option"
  prefisso :: string
  provincia :: string

record districtResponse =
  codice :: string
  nome :: string
  regione :: string
  sigla :: string

record city =
  name :: string
  code :: string

text \<open>The display name built for one municipality:
  \<open>element.nome + ` (${cityDistrict})`\<close>, where \<open>cityDistrict\<close> is the \<open>sigla\<close> of
  the first province whose \<open>codice\<close> is the municipality's \<open>provincia\<close>, or
  \<open>undefined\<close>.\<close>

definition cityDisplayName :: "districtResponse list \<Rightarrow> cityResponse \<Rightarrow> string" where
  "cityDisplayName res2 element =
     (let cityDistrict = map_option districtResponse.sigla
            (find (\<lambda>item. districtResponse.codice item = cityResponse.provincia element) res2)
      in cityResponse.nome element @ '' ('' @ js_show_opt cityDistrict @ '')'')"

fun apiRequest_loop ::
  "districtResponse list \<Rightarrow> cityResponse list \<Rightarrow> city list \<times> string list \<Rightarrow> city list \<times> string list" where
  "apiRequest_loop res2 [] (cityList, options) = (cityList, options)"
| "apiRequest_loop res2 (element # rest) (cityList, options) =
     (let cityName = cityDisplayName res2 element
      in apiRequest_loop res2 rest
           (cityList @ [\<lparr>name = cityName, code = cityResponse.codiceCatastale element\<rparr>],
            options @ [cityName]))"

definition cityCodeExtractor :: "city list \<Rightarrow> string \<Rightarrow> string option" where
  "cityCodeExtractor cityList c = map_option code (find (\<lambda>element. name element = c) cityList)"

text \<open>Angular's \<open>ValidationErrors\<close> that the form of the component can report.\<close>

datatype validation_error = Required | MinLength nat | IsNotOption

definition autoCompleteValidator :: "string list \<Rightarrow> string \<Rightarrow> validation_error option" where
  "autoCompleteValidator options value =
     (case find (\<lambda>element. element = value) options of
        Some element \<Rightarrow> if element \<noteq> [] then None else Some IsNotOption
      | None \<Rightarrow> Some IsNotOption)"

definition filterOptions :: "string list \<Rightarrow> string \<Rightarrow> string list" where
  "filterOptions options value =
     (let filterValue = js_toLowerCase value
      in take 10 (filter (\<lambda>option. js_includes (js_toLowerCase option) filterValue) options))"

text \<open>Sample responses used by the examples: the province of Rome, Rome, and Rome with a
  province code that is not in the province list.\<close>

definition rm_district :: districtResponse where
  "rm_district = \<lparr>districtResponse.codice = ''058'', nome = ''Roma'', regione = ''Lazio'', sigla = ''RM''\<rparr>"

definition roma_response :: cityResponse where
  "roma_response =
     \<lparr>cap = ''00100'', cityResponse.codice = ''058091'', codiceCatastale = ''H501'',
      coordinate = \<lparr>lat = 0, lng = 0\<rparr>, cityResponse.nome = ''Roma'', nomeStraniero = None,
      prefisso = ''06'', provincia = ''058''\<rparr>"

definition roma_response_099 :: cityResponse where
  "roma_response_099 =
     \<lparr>cap = ''00100'', cityResponse.codice = ''058091'', codiceCatastale = ''H501'',
      coordinate = \<lparr>lat = 0, lng = 0\<rparr>, cityResponse.nome = ''Roma'', nomeStraniero = None,
      prefisso = ''06'', provincia = ''099''\<rparr>"

section \<open>Lemmas\<close>

lemma apiRequest_loop_eq:
  "apiRequest_loop res2 res (cl, opts) =
     (cl @ map (\<lambda>e. \<lparr>name = cityDisplayName res2 e, code = codiceCatastale e\<rparr>) res,
      opts @ map (cityDisplayName res2) res)"
  by (induction res arbitrary: cl opts) (simp_all add: Let_def)

lemma cityCodeExtractor_None: "cityCodeExtractor cl c = None \<longleftrightarrow> c \<notin> name ` set cl"
  by (auto simp: cityCodeExtractor_def find_None_iff)

lemma autoCompleteValidator_None: "autoCompleteValidator options v = None \<longleftrightarrow> v \<in> set options \<and> v \<noteq> []"
proof (cases "find (\<lambda>element. element = v) options")
  case None
  then have "v \<notin> set options" by (simp add: find_None_iff)
  with None show ?thesis by (simp add: autoCompleteValidator_def)
next
  case (Some e)
  then have "e = v" "v \<in> set options" by (auto simp: find_Some_iff)
  with Some show ?thesis by (simp add: autoCompleteValidator_def)
qed

lemma filterOptions_subseq:
  "length (filterOptions options v) \<le> 10 \<and> subseq (filterOptions options v) options"
proof -
  let ?fs = "filter (\<lambda>opt. js_includes (js_toLowerCase opt) (js_toLowerCase v)) options"
  have "subseq (take 10 ?fs) ?fs" by (rule prefix_imp_subseq) (rule take_is_prefix)
  then have "subseq (take 10 ?fs) options" using subseq_filter_left subseq_order.trans by blast
  then show ?thesis by (simp add: filterOptions_def)
qed

section \<open>Properties of the municipality data\<close>

text \<open>C21. \<open>cityCodeExtractor\<close> returns the code of the first entry whose name equals the
  input exactly (case-sensitive), and only then.\<close>

theorem cityCodeExtractor_first_match:
  "cityCodeExtractor cl c = Some k \<longleftrightarrow>
   (\<exists>i<length cl. name (cl ! i) = c \<and> code (cl ! i) = k \<and> (\<forall>j<i. name (cl ! j) \<noteq> c))"
  by (auto simp: cityCodeExtractor_def find_Some_iff)

theorem cityCodeExtractor_first_match_witness:
  "cityCodeExtractor [\<lparr>name = ''Roma (RM)'', code = ''H501''\<rparr>, \<lparr>name = ''Roma (RM)'', code = ''X000''\<rparr>]
     ''Roma (RM)'' = Some ''H501'' \<and>
   cityCodeExtractor [\<lparr>name = ''Roma (RM)'', code = ''H501''\<rparr>] ''roma (rm)'' \<noteq> Some ''H501''"
proof -
  have "cityCodeExtractor [\<lparr>name = ''Roma (RM)'', code = ''H501''\<rparr>, \<lparr>name = ''Roma (RM)'', code = ''X000''\<rparr>]
     ''Roma (RM)'' = Some ''H501''"
    by (rule cityCodeExtractor_first_match [THEN iffD2]) (rule exI [of _ 0], simp)
  moreover have "cityCodeExtractor [\<lparr>name = ''Roma (RM)'', code = ''H501''\<rparr>] ''roma (rm)'' \<noteq> Some ''H501''"
    by (simp add: cityCodeExtractor_first_match)
  ultimately show ?thesis ..
qed

text \<open>C22. The autocomplete shows at most ten options, in the order of the option list,
  each containing the typed text regardless of letter case.\<close>

theorem filterOptions_bounds:
  "length (filterOptions options v) \<le> 10 \<and> subseq (filterOptions options v) options \<and>
   (\<forall>opt\<in>set (filterOptions options v). sublist (js_toLowerCase v) (js_toLowerCase opt))"
  using filterOptions_subseq [of options v]
  by (auto simp: filterOptions_def js_includes_sublist dest: in_set_takeD)

theorem filterOptions_bounds_witness:
  "filterOptions [''Roma (RM)'', ''Milano (MI)'', ''Romano di Lombardia (BG)''] ''ROM'' =
     [''Roma (RM)'', ''Romano di Lombardia (BG)''] \<and>
   length (filterOptions [''Roma (RM)'', ''Milano (MI)'', ''Romano di Lombardia (BG)''] ''ROM'') \<le> 10 \<and>
   subseq (filterOptions [''Roma (RM)'', ''Milano (MI)'', ''Romano di Lombardia (BG)''] ''ROM'')
     [''Roma (RM)'', ''Milano (MI)'', ''Romano di Lombardia (BG)'']"
proof -
  have "filterOptions [''Roma (RM)'', ''Milano (MI)'', ''Romano di Lombardia (BG)''] ''ROM'' =
     [''Roma (RM)'', ''Romano di Lombardia (BG)'']" by code_simp
  with filterOptions_bounds [of "[''Roma (RM)'', ''Milano (MI)'', ''Romano di Lombardia (BG)'']" "''ROM''"]
  show ?thesis by simp
qed

text \<open>C23. A municipality whose province code matches no province gets the display name
  \<open>nome (undefined)\<close>: the template literal prints the missing \<open>sigla\<close>.\<close>

theorem cityDisplayName_missing_district:
  assumes "\<forall>d\<in>set res2. districtResponse.codice d \<noteq> provincia e"
  shows "cityDisplayName res2 e = cityResponse.nome e @ '' (undefined)''"
proof -
  from assms have "find (\<lambda>item. districtResponse.codice item = provincia e) res2 = None"
    by (simp add: find_None_iff)
  then show ?thesis by (simp add: cityDisplayName_def js_show_opt_None)
qed

theorem cityDisplayName_missing_district_witness:
  "districtResponse.codice rm_district \<noteq> provincia roma_response_099 \<and>
   cityDisplayName [rm_district] roma_response_099 = ''Roma (undefined)''"
proof -
  have h: "\<forall>d\<in>set [rm_district]. districtResponse.codice d \<noteq> provincia roma_response_099"
    by (simp add: rm_district_def roma_response_099_def)
  from cityDisplayName_missing_district [OF h] h show ?thesis
    by (simp add: roma_response_099_def)
qed

end
