(* ===== verification/Main_Form.thy ===== *)
theory Main_Form
  imports Name_Encoder Check_Digit Date_Encoder City_Data
begin

text \<open>
  The component \<open>MainFormComponent\<close> (src/src/app/views/main-form/main-form.component.ts)
  as a state machine.
  \<^item> Its mutable fields \<open>cityList\<close>, \<open>options\<close> and \<open>fiscalCode\<close> are the record
    \<open>main_form\<close>; \<open>init_main_form\<close> is the state after construction.
  \<^item> \<open>apiRequest\<close> is the callback of the nested subscriptions (lines 30--44): it runs when
    both HTTP responses have arrived and pushes the joined entries onto both arrays.
  \<^item> \<open>getForm\<close> (lines 68--74) composes the encoders: surname skeleton, given-name
    skeleton, date/sex token and city code, in this order, then appends \<open>lastCode\<close> of
    the result. A city that \<open>cityCodeExtractor\<close> does not find is \<open>undefined\<close>, which the
    string concatenation prints as \<open>''undefined''\<close>.
  \<^item> \<open>form_errors\<close> is the validation of the form built by \<open>formConstruction\<close>
    (lines 58--66), with Angular's \<open>Validators.required\<close> and \<open>Validators.minLength\<close>.
  \<^item> \<open>reachable ok\<close> is the set of states of a run: any number of response pairs (each
    municipality satisfying \<open>ok\<close>, a condition on the data the service returns) and of
    submissions, in any order, since the HTTP callbacks are asynchronous.
\<close>

section \<open>Definitions\<close>

record user =
  surname :: string
  name :: string
  sex :: sex
  date :: js_date
  city :: string

record main_form =
  cityList :: "city list"
  options :: "string list"
  fiscalCode :: string

definition init_main_form :: main_form where
  "init_main_form = \<lparr>cityList = [], options = [], fiscalCode = ''''\<rparr>"

definition apiRequest :: "cityResponse list \<Rightarrow> districtResponse list \<Rightarrow> main_form \<Rightarrow> main_form" where
  "apiRequest res res2 st =
     (case apiRequest_loop res2 res (cityList st, options st) of
        (cl, opts) \<Rightarrow> st\<lparr>cityList := cl, options := opts\<rparr>)"

definition fiscal_body :: "user \<Rightarrow> main_form \<Rightarrow> string" where
  "fiscal_body userDetail st =
     nameExtractor (surname userDetail) False @ nameExtractor (user.name userDetail) True @
     dateAndSexExtractor (date userDetail) (sex userDetail) @
     js_show_opt (cityCodeExtractor (cityList st) (city userDetail))"

definition getForm :: "user \<Rightarrow> main_form \<Rightarrow> main_form" where
  "getForm userDetail st =
     (let result = fiscal_body userDetail st;
          lastCharacter = lastCode result
      in st\<lparr>fiscalCode := result @ lastCharacter\<rparr>)"

text \<open>The form: its controls' values and Angular's validators.\<close>

record form_controls =
  surname_control :: string
  name_control :: string
  sex_control :: "sex option"
  date_control :: "js_date option"
  city_control :: string

definition required_str :: "string \<Rightarrow> validation_error option" where
  "required_str v = (if v = [] then Some Required else None)"

definition required_opt :: "'a option \<Rightarrow> validation_error option" where
  "required_opt v = (if v = None then Some Required else None)"

definition minLength :: "nat \<Rightarrow> string \<Rightarrow> validation_error option" where
  "minLength n v = (if v \<noteq> [] \<and> length v < n then Some (MinLength n) else None)"

definition form_errors :: "string list \<Rightarrow> form_controls \<Rightarrow> validation_error list" where
  "form_errors opts fc =
     List.map_filter id
       [required_str (surname_control fc), minLength 3 (surname_control fc),
        required_str (name_control fc), minLength 3 (name_control fc),
        required_opt (sex_control fc), required_opt (date_control fc),
        required_str (city_control fc), autoCompleteValidator opts (city_control fc)]"

definition form_valid :: "string list \<Rightarrow> form_controls \<Rightarrow> bool" where
  "form_valid opts fc \<longleftrightarrow> form_errors opts fc = []"

text \<open>\<open>{ ...this.form.value, date: this.form.controls['date'].value._d }\<close> on a form whose
  sex and date are set.\<close>

definition user_of_form :: "form_controls \<Rightarrow> sex \<Rightarrow> js_date \<Rightarrow> user" where
  "user_of_form fc s d =
     \<lparr>surname = surname_control fc, name = name_control fc, sex = s, date = d,
      city = city_control fc\<rparr>"

inductive reachable :: "(cityResponse \<Rightarrow> bool) \<Rightarrow> main_form \<Rightarrow> bool" for ok where
  init: "reachable ok init_main_form"
| loaded: "reachable ok st \<Longrightarrow> \<forall>e\<in>set res. ok e \<Longrightarrow> reachable ok (apiRequest res res2 st)"
| submit: "reachable ok st \<Longrightarrow> reachable ok (getForm u st)"

definition lists_agree :: "main_form \<Rightarrow> bool" where
  "lists_agree st \<longleftrightarrow> map city.name (cityList st) = options st"

section \<open>Lemmas\<close>

lemma apiRequest_fields:
  "cityList (apiRequest res res2 st) =
     cityList st @ map (\<lambda>e. \<lparr>city.name = cityDisplayName res2 e, code = codiceCatastale e\<rparr>) res"
  "options (apiRequest res res2 st) = options st @ map (cityDisplayName res2) res"
  "fiscalCode (apiRequest res res2 st) = fiscalCode st"
  by (simp_all add: apiRequest_def apiRequest_loop_eq)

lemma getForm_fields:
  "cityList (getForm u st) = cityList st" "options (getForm u st) = options st"
  "fiscalCode (getForm u st) = fiscal_body u st @ lastCode (fiscal_body u st)"
  by (simp_all add: getForm_def Let_def)

lemma lists_agree_init: "lists_agree init_main_form"
  by (simp add: lists_agree_def init_main_form_def)

lemma lists_agree_apiRequest: "lists_agree st \<Longrightarrow> lists_agree (apiRequest res res2 st)"
  by (simp add: lists_agree_def apiRequest_fields comp_def)

lemma lists_agree_getForm: "lists_agree st \<Longrightarrow> lists_agree (getForm u st)"
  by (simp add: lists_agree_def getForm_fields)

lemma reachable_lists_agree: "reachable ok st \<Longrightarrow> lists_agree st"
  by (induction rule: reachable.induct)
     (simp_all add: lists_agree_init lists_agree_apiRequest lists_agree_getForm)

lemma reachable_codes:
  "reachable ok st \<Longrightarrow> c \<in> set (cityList st) \<Longrightarrow> \<exists>e. ok e \<and> code c = codiceCatastale e"
proof (induction arbitrary: c rule: reachable.induct)
  case init
  then show ?case by (simp add: init_main_form_def)
next
  case (loaded st res res2)
  then show ?case by (auto simp: apiRequest_fields)
next
  case (submit st u)
  then show ?case by (simp add: getForm_fields)
qed

lemma validated_city_found:
  assumes "reachable ok st" "autoCompleteValidator (options st) c = None"
  shows "\<exists>k e. cityCodeExtractor (cityList st) c = Some k \<and> ok e \<and> k = codiceCatastale e"
proof -
  from assms(2) have "c \<in> set (options st)" by (simp add: autoCompleteValidator_None)
  with reachable_lists_agree [OF assms(1)] have "c \<in> city.name ` set (cityList st)"
    by (simp add: lists_agree_def flip: list.set_map)
  then obtain k where k: "cityCodeExtractor (cityList st) c = Some k"
    by (cases "cityCodeExtractor (cityList st) c") (simp_all add: cityCodeExtractor_None)
  then have "\<exists>x\<in>set (cityList st). code x = k"
    by (auto simp: cityCodeExtractor_def find_Some_iff intro: nth_mem)
  with reachable_codes [OF assms(1)] k show ?thesis by blast
qed

lemma form_valid_city: "form_valid opts fc \<Longrightarrow> autoCompleteValidator opts (city_control fc) = None"
  by (simp add: form_valid_def form_errors_def map_filter_simps split: option.splits if_splits)

section \<open>Properties of the component state\<close>

text \<open>C7. In every state of a run the autocomplete options are exactly the names of the
  city list, in the same order: the callback pushes onto both arrays together and
  \<open>getForm\<close> writes neither.\<close>

theorem reachable_options_eq_names:
  assumes "reachable ok st"
  shows "options st = map city.name (cityList st)"
  using reachable_lists_agree [OF assms] by (simp add: lists_agree_def)

theorem reachable_options_eq_names_witness:
  "reachable (\<lambda>_. True) (apiRequest [roma_response] [rm_district] init_main_form) \<and>
   options (apiRequest [roma_response] [rm_district] init_main_form) = [''Roma (RM)''] \<and>
   options (apiRequest [roma_response] [rm_district] init_main_form) =
     map city.name (cityList (apiRequest [roma_response] [rm_district] init_main_form))"
proof -
  have r: "reachable (\<lambda>_. True) (apiRequest [roma_response] [rm_district] init_main_form)"
    by (rule reachable.loaded [OF reachable.init]) simp
  have "options (apiRequest [roma_response] [rm_district] init_main_form) = [''Roma (RM)'']"
    by code_simp
  with reachable_options_eq_names [OF r] r show ?thesis by simp
qed

text \<open>C24. \<open>getForm\<close> is idempotent: submitting the same form twice, with no response
  arriving in between, gives the same fiscal code.\<close>

theorem getForm_idempotent:
  "fiscalCode (getForm u (getForm u st)) = fiscalCode (getForm u st)"
  by (simp add: getForm_fields fiscal_body_def)

end
