(* ===== verification/Component_Run.thy ===== *)
theory Component_Run
  imports Main_Form
begin

text \<open>
  The component over time: \<open>ngOnInit\<close>, the two HTTP requests of \<open>CityApiService\<close>
  with their outcomes (the parsed list or an error) and their nested subscriptions, the
  values the autocomplete observable emits, and submissions of the form, as a step
  function on a datatype of events.
\<close>

section \<open>Definitions\<close>

text \<open>\<open>CityApiService\<close> (src/src/app/api/city-api.service.ts): two GET requests; the
  response of each is the input of a later event.\<close>

datatype api_request = GetCityList | GetDitrictList

primrec request_url :: "api_request \<Rightarrow> string" where
  "request_url GetCityList = ''https://comuni-ita.herokuapp.com/api/comuni''"
| "request_url GetDitrictList = ''https://comuni-ita.herokuapp.com/api/province''"

text \<open>The phase of \<open>apiRequest\<close>: not yet called, waiting for the municipalities,
  waiting for the provinces (the municipalities received are kept by the outer callback's
  closure), done, or failed: a request's observable signalled an error, and as neither
  \<open>subscribe\<close> passes an error callback the subscription ends there.\<close>

datatype loader_phase = Idle | AwaitCities | AwaitDistricts "cityResponse list" | Loaded | Failed

primrec pending_request :: "loader_phase \<Rightarrow> api_request option" where
  "pending_request Idle = None"
| "pending_request AwaitCities = Some GetCityList"
| "pending_request (AwaitDistricts res) = Some GetDitrictList"
| "pending_request Loaded = None"
| "pending_request Failed = None"

text \<open>An error reported on the console: a JavaScript exception reading a property of
  \<open>undefined\<close>, or an unhandled \<open>HttpErrorResponse\<close> of a request, by its URL.\<close>

datatype js_error = TypeError string | HttpErrorResponse string

record component =
  main :: main_form
  phase :: loader_phase
  form_built :: bool
  filtered :: "string list list"
  console :: "js_error list"

definition init_component :: component where
  "init_component = \<lparr>main = init_main_form, phase = Idle, form_built = False, filtered = [], console = []\<rparr>"

text \<open>\<open>ngOnInit\<close>: \<open>apiRequest()\<close> sends the first request, \<open>formConstruction()\<close> builds
  the form, \<open>matAutocompleteStart()\<close> makes \<open>filteredOptions\<close>, whose \<open>startWith('')\<close>
  emits the filter of the empty text when the view subscribes, at initialisation.\<close>

definition ngOnInit :: "component \<Rightarrow> component" where
  "ngOnInit c =
     (let c1 = c\<lparr>phase := AwaitCities\<rparr>;
          c2 = c1\<lparr>form_built := True\<rparr>
      in c2\<lparr>filtered := filtered c2 @ [filterOptions (options (main c2)) '''']\<rparr>)"

text \<open>\<open>getForm\<close> on the values the controls hold at run time (lines 68--74). The sex
  control holds the string \<open>''''\<close> until a sex is chosen, then \<open>'male'\<close> or
  \<open>'female'\<close>.\<close>

fun sex_value :: "sex option \<Rightarrow> string" where
  "sex_value None = ''''"
| "sex_value (Some male) = ''male''"
| "sex_value (Some female) = ''female''"

text \<open>What \<open>this.form.controls['date'].value._d\<close> reads: the initial value \<open>''''\<close> is a
  string, which has no property \<open>_d\<close>, so the read gives \<open>undefined\<close>; a moment gives
  its \<open>Date\<close>.\<close>

datatype date_ref = Undefined | DateObj js_date

definition member_d :: "js_date option \<Rightarrow> date_ref" where
  "member_d v = (case v of None \<Rightarrow> Undefined | Some d \<Rightarrow> DateObj d)"

text \<open>A method call \<open>date.m()\<close>: on \<open>undefined\<close> it throws a \<open>TypeError\<close> reading
  \<open>m\<close>; on a \<open>Date\<close> it reads that date.\<close>

fun call_date_method :: "date_ref \<Rightarrow> string \<Rightarrow> js_error + js_date" where
  "call_date_method Undefined m = Inl (TypeError m)"
| "call_date_method (DateObj d) m = Inr d"

text \<open>\<open>dateAndSexExtractor\<close> (lines 133--179) on these values: the three method calls in
  the order of the code, and the test \<open>sex === 'female'\<close> on the string it is given.\<close>

definition dateAndSexExtractor_js :: "date_ref \<Rightarrow> string \<Rightarrow> js_error + string" where
  "dateAndSexExtractor_js dt sx =
     (case call_date_method dt ''getFullYear'' of
        Inl e \<Rightarrow> Inl e
      | Inr d1 \<Rightarrow>
          (case call_date_method dt ''getMonth'' of
             Inl e \<Rightarrow> Inl e
           | Inr d2 \<Rightarrow>
               (case call_date_method dt ''getDate'' of
                  Inl e \<Rightarrow> Inl e
                | Inr d3 \<Rightarrow>
                    (let result = year_digits (getFullYear d1) @ month_letter (getMonth d2);
                         day = (if sx = ''female'' then getDate d3 + 40 else getDate d3)
                     in Inr (result @ addZero day)))))"

text \<open>\<open>getForm\<close>: the four segments in the order of line 70, an exception of the date
  segment ending the handler before \<open>this.fiscalCode\<close> is assigned.\<close>

definition submit :: "form_controls \<Rightarrow> main_form \<Rightarrow> js_error + main_form" where
  "submit fc st =
     (let surname_part = nameExtractor (surname_control fc) False;
          name_part = nameExtractor (name_control fc) True
      in case dateAndSexExtractor_js (member_d (date_control fc)) (sex_value (sex_control fc)) of
           Inl e \<Rightarrow> Inl e
         | Inr token \<Rightarrow>
             (let result = surname_part @ name_part @ token @
                           js_show_opt (cityCodeExtractor (cityList st) (city_control fc));
                  lastCharacter = lastCode result
              in Inr (st\<lparr>fiscalCode := result @ lastCharacter\<rparr>)))"

datatype event =
    NgOnInit
  | CityListResponse "cityResponse list"
  | DistrictListResponse "districtResponse list"
  | CityChange string
  | Submit form_controls
  | RequestError api_request

text \<open>One event; \<open>None\<close> when the event cannot occur in the state: a response for which
  no subscription is waiting, a second initialisation, user input before the view exists.
  An exception in a handler is logged by Angular's error handler and leaves the state.\<close>

fun step :: "component \<Rightarrow> event \<Rightarrow> component option" where
  "step c NgOnInit = (if phase c = Idle \<and> \<not> form_built c then Some (ngOnInit c) else None)"
| "step c (CityListResponse res) =
     (case phase c of AwaitCities \<Rightarrow> Some (c\<lparr>phase := AwaitDistricts res\<rparr>) | _ \<Rightarrow> None)"
| "step c (DistrictListResponse res2) =
     (case phase c of
        AwaitDistricts res \<Rightarrow> Some (c\<lparr>main := apiRequest res res2 (main c), phase := Loaded\<rparr>)
      | _ \<Rightarrow> None)"
| "step c (CityChange v) =
     (if form_built c then Some (c\<lparr>filtered := filtered c @ [filterOptions (options (main c)) v]\<rparr>)
      else None)"
| "step c (Submit fc) =
     (if form_built c then
        Some (case submit fc (main c) of
                Inl e \<Rightarrow> c\<lparr>console := console c @ [e]\<rparr>
              | Inr st \<Rightarrow> c\<lparr>main := st\<rparr>)
      else None)"
| "step c (RequestError r) =
     (if pending_request (phase c) = Some r
      then Some (c\<lparr>phase := Failed, console := console c @ [HttpErrorResponse (request_url r)]\<rparr>)
      else None)"

fun run :: "component \<Rightarrow> event list \<Rightarrow> component option" where
  "run c [] = Some c"
| "run c (e # es) = Option.bind (step c e) (\<lambda>c'. run c' es)"

text \<open>The value of the form as \<open>formConstruction\<close> creates it (lines 59--65): every
  control holds the empty string.\<close>

definition initial_form :: form_controls where
  "initial_form = \<lparr>surname_control = [], name_control = [], sex_control = None, date_control = None,
     city_control = []\<rparr>"

text \<open>A run used by the examples: the user types before and after the two responses,
  then submits the untouched form.\<close>

definition demo_events :: "event list" where
  "demo_events =
     [NgOnInit, CityChange ''Rom'', CityListResponse [roma_response], DistrictListResponse [rm_district],
      CityChange ''Rom'', Submit initial_form]"

fun user_event :: "event \<Rightarrow> bool" where
  "user_event (CityChange v) = True"
| "user_event (Submit fc) = True"
| "user_event _ = False"

text \<open>A condition on the municipalities a run's responses carry, and on those held by
  the pending subscription.\<close>

fun response_ok :: "(cityResponse \<Rightarrow> bool) \<Rightarrow> event \<Rightarrow> bool" where
  "response_ok ok (CityListResponse res) = list_all ok res"
| "response_ok ok _ = True"

definition phase_ok :: "(cityResponse \<Rightarrow> bool) \<Rightarrow> component \<Rightarrow> bool" where
  "phase_ok ok c = (case phase c of AwaitDistricts res \<Rightarrow> list_all ok res | _ \<Rightarrow> True)"

fun district_response :: "event \<Rightarrow> bool" where
  "district_response (DistrictListResponse res2) = True"
| "district_response _ = False"

definition component_inv :: "component \<Rightarrow> bool" where
  "component_inv c \<longleftrightarrow>
     options (main c) = map city.name (cityList (main c)) \<and>
     list_all (\<lambda>fl. length fl \<le> 10 \<and> subseq fl (options (main c))) (filtered c) \<and>
     (phase c = Loaded \<or> cityList (main c) = []) \<and>
     form_built c = (phase c \<noteq> Idle)"

section \<open>Lemmas\<close>

lemma dateAndSexExtractor_js_DateObj:
  "dateAndSexExtractor_js (DateObj d) v = Inr (dateAndSexExtractor d (if v = ''female'' then female else male))"
  by (simp add: dateAndSexExtractor_js_def dateAndSexExtractor_def)

lemma sex_value_female: "(if sex_value (Some s) = ''female'' then female else male) = s"
  by (cases s) simp_all

lemma dateAndSexExtractor_js_Undefined:
  "dateAndSexExtractor_js Undefined v = Inl (TypeError ''getFullYear'')"
  by (simp add: dateAndSexExtractor_js_def)

text \<open>The run-time \<open>getForm\<close> against the typed one: it throws exactly when the date
  control is empty, naming the first method called on the date, and otherwise computes
  \<open>getForm\<close> of the user whose sex is the one \<open>sex === 'female'\<close> sees.\<close>

lemma submit_eq:
  "submit fc st =
     (case date_control fc of
        None \<Rightarrow> Inl (TypeError ''getFullYear'')
      | Some d \<Rightarrow>
          Inr (getForm (user_of_form fc (if sex_value (sex_control fc) = ''female'' then female else male) d) st))"
  by (simp add: submit_def member_d_def dateAndSexExtractor_js_Undefined dateAndSexExtractor_js_DateObj
      getForm_def fiscal_body_def user_of_form_def Let_def split: option.split)

lemma run_append: "run c (xs @ ys) = Option.bind (run c xs) (\<lambda>c'. run c' ys)"
  by (induction c xs rule: run.induct) (simp_all cong: Option.bind_cong)

text \<open>Runs preserve what each step preserves, and compose what each step relates.\<close>

lemma run_rel:
  assumes "run c es = Some c'" "Q c" "list_all E es"
    and step: "\<And>c e c'. Q c \<Longrightarrow> E e \<Longrightarrow> step c e = Some c' \<Longrightarrow> R c c' \<and> Q c'"
    and refl: "\<And>c. R c c" and trans: "\<And>a b d. R a b \<Longrightarrow> R b d \<Longrightarrow> R a d"
  shows "R c c' \<and> Q c'"
  using assms(1-3)
proof (induction es arbitrary: c)
  case Nil
  then show ?case by (simp add: refl)
next
  case (Cons e es)
  from Cons.prems(1) obtain c1 where s: "step c e = Some c1" and r: "run c1 es = Some c'"
    by (auto simp: bind_eq_Some_conv)
  from Cons.prems(3) have "E e" "list_all E es" by simp_all
  with step [OF Cons.prems(2) _ s] have "R c c1" "Q c1" by auto
  with Cons.IH [OF r] \<open>list_all E es\<close> trans show ?case by blast
qed

lemma submit_fields:
  "submit fc st = Inr st' \<Longrightarrow> cityList st' = cityList st \<and> options st' = options st"
  by (auto simp: submit_eq getForm_fields split: option.splits)

lemma step_user_event:
  assumes "form_built c" "user_event e"
  shows "\<exists>c1. step c e = Some c1 \<and> phase c1 = phase c \<and> form_built c1 \<and>
              cityList (main c1) = cityList (main c) \<and> options (main c1) = options (main c)"
proof (cases e)
  case (Submit fc)
  with assms show ?thesis
    by (cases "submit fc (main c)") (auto dest: submit_fields)
qed (use assms in auto)

lemma run_user_events:
  assumes "form_built c" "list_all user_event xs"
  shows "\<exists>c'. run c xs = Some c' \<and> phase c' = phase c \<and> form_built c' \<and>
              cityList (main c') = cityList (main c) \<and> options (main c') = options (main c)"
  using assms
proof (induction xs arbitrary: c)
  case Nil
  then show ?case by simp
next
  case (Cons e xs)
  from Cons.prems step_user_event [of c e] obtain c1 where "step c e = Some c1" "phase c1 = phase c"
    "form_built c1" "cityList (main c1) = cityList (main c)" "options (main c1) = options (main c)"
    by auto
  with Cons.IH [of c1] Cons.prems show ?case by simp
qed

lemma subseq_Nil_right_iff: "subseq xs [] \<longleftrightarrow> xs = []"
  by (cases xs) simp_all

lemma component_inv_init: "component_inv init_component"
  by (simp add: component_inv_def init_component_def init_main_form_def)

lemma component_inv_step:
  assumes inv: "component_inv c" and s: "step c e = Some c'"
  shows "component_inv c'"
proof (cases e)
  case NgOnInit
  with inv s show ?thesis
    by (auto simp: component_inv_def ngOnInit_def filterOptions_subseq split: if_splits)
next
  case (CityListResponse res)
  with inv s show ?thesis
    by (auto simp: component_inv_def split: loader_phase.splits)
next
  case (DistrictListResponse res2)
  with s obtain res where ph: "phase c = AwaitDistricts res"
    and c': "c' = c\<lparr>main := apiRequest res res2 (main c), phase := Loaded\<rparr>"
    by (auto split: loader_phase.splits)
  with inv have "options (main c) = []" "cityList (main c) = []" "\<forall>fl\<in>set (filtered c). fl = []"
    by (auto simp: component_inv_def list_all_iff subseq_Nil_right_iff)
  with inv ph c' show ?thesis
    by (auto simp: component_inv_def apiRequest_fields comp_def list_all_iff)
next
  case (CityChange v)
  with inv s show ?thesis
    by (auto simp: component_inv_def filterOptions_subseq split: if_splits)
next
  case (Submit fc)
  with inv s show ?thesis
    by (auto simp: component_inv_def submit_eq getForm_fields split: if_splits option.splits)
next
  case (RequestError r)
  with inv s show ?thesis
    by (cases "phase c") (auto simp: component_inv_def split: if_splits)
qed

lemma list_all_True: "list_all (\<lambda>_. True) xs"
  by (simp add: list_all_iff)

lemma component_inv_run:
  assumes "component_inv c" "run c es = Some c'"
  shows "component_inv c'"
proof -
  have "True \<and> component_inv c'"
    using assms(2,1) list_all_True [of es]
    by (rule run_rel [where E = "\<lambda>_. True"]) (auto dest: component_inv_step)
  then show ?thesis ..
qed

lemma step_reachable:
  assumes "reachable ok (main c)" "phase_ok ok c" "response_ok ok e" "step c e = Some c'"
  shows "reachable ok (main c') \<and> phase_ok ok c'"
proof (cases e)
  case (DistrictListResponse res2)
  with assms show ?thesis
    by (auto simp: phase_ok_def list_all_iff intro: reachable.loaded split: loader_phase.splits)
next
  case (Submit fc)
  with assms show ?thesis
    by (auto simp: phase_ok_def submit_eq intro: reachable.submit
             split: if_splits option.splits sum.splits)
qed (use assms in \<open>auto simp: phase_ok_def ngOnInit_def split: if_splits loader_phase.splits\<close>)

lemma run_reachable:
  "reachable ok (main c) \<Longrightarrow> phase_ok ok c \<Longrightarrow> list_all (response_ok ok) es \<Longrightarrow>
   run c es = Some c' \<Longrightarrow> reachable ok (main c')"
proof -
  assume a: "reachable ok (main c)" "phase_ok ok c" "list_all (response_ok ok) es" "run c es = Some c'"
  have "True \<and> (\<lambda>c. reachable ok (main c) \<and> phase_ok ok c) c'"
    using a(4) conjI [OF a(1,2)] a(3)
    by (rule run_rel [where E = "response_ok ok" and Q = "\<lambda>c. reachable ok (main c) \<and> phase_ok ok c"])
       (auto dest: step_reachable)
  then show ?thesis by simp
qed

lemma run_reachable_init:
  assumes "run init_component es = Some c" "list_all (response_ok ok) es"
  shows "reachable ok (main c)"
proof -
  have "reachable ok (main init_component)" "phase_ok ok init_component"
    by (simp_all add: init_component_def phase_ok_def reachable.init)
  with assms show ?thesis by (blast intro: run_reachable)
qed

lemma run_form_valid_built:
  assumes "run init_component es = Some c" "form_valid (options (main c)) fc"
  shows "form_built c \<and> phase c = Loaded"
proof -
  have inv: "component_inv c" using component_inv_run [OF component_inv_init assms(1)] .
  from form_valid_city [OF assms(2)] have "options (main c) \<noteq> []"
    by (auto simp: autoCompleteValidator_None)
  with inv show ?thesis by (auto simp: component_inv_def)
qed

lemma step_loaded:
  assumes "step c e = Some c'"
  shows "(if phase c' = Loaded then 1 else 0) = (if phase c = Loaded then 1 else 0) + (if district_response e then 1 else (0::nat))"
  using assms
  by (cases e) (auto simp: ngOnInit_def split: if_splits loader_phase.splits sum.splits)

lemma run_loaded:
  "run c es = Some c' \<Longrightarrow>
   (if phase c' = Loaded then 1 else 0) = (if phase c = Loaded then 1 else 0) + length (filter district_response es)"
proof (induction c es rule: run.induct)
  case (2 c e es)
  then obtain c1 where "step c e = Some c1" "run c1 es = Some c'" by (auto simp: bind_eq_Some_conv)
  with 2 step_loaded [of c e c1] show ?case by auto
qed simp

lemma step_Failed:
  assumes "phase c = Failed" "step c e = Some c'"
  shows "phase c' = Failed \<and> cityList (main c') = cityList (main c) \<and> options (main c') = options (main c)"
  using assms
  by (cases e) (auto simp: submit_eq getForm_fields split: if_splits option.splits sum.splits)

lemma run_Failed:
  assumes "run c es = Some c'" "phase c = Failed"
  shows "phase c' = Failed \<and> cityList (main c') = cityList (main c) \<and> options (main c') = options (main c)"
proof -
  have "(cityList (main c') = cityList (main c) \<and> options (main c') = options (main c)) \<and> phase c' = Failed"
    using assms(1,2) list_all_True [of es]
    by (rule run_rel [where E = "\<lambda>_. True"]) (auto dest: step_Failed)
  then show ?thesis by simp
qed

lemma step_console: "step c e = Some c' \<Longrightarrow> prefix (console c) (console c')"
  by (cases e) (auto simp: ngOnInit_def split: if_splits loader_phase.splits sum.splits)

lemma run_console:
  assumes "run c es = Some c'"
  shows "prefix (console c) (console c')"
proof -
  have "prefix (console c) (console c') \<and> True"
    using assms TrueI list_all_True [of es]
    by (rule run_rel [where E = "\<lambda>_. True"]) (auto dest: step_console intro: prefix_order.trans)
  then show ?thesis ..
qed

lemma run_split_event:
  assumes "run c (xs @ e # ys) = Some c'"
  obtains c1 c2 where "run c xs = Some c1" "step c1 e = Some c2" "run c2 ys = Some c'"
  using assms by (auto simp: run_append bind_eq_Some_conv)

lemma form_valid_Nil: "\<not> form_valid [] fc"
  using form_valid_city [of "[]" fc] by (auto simp: autoCompleteValidator_None)

section \<open>Properties of the component's runs\<close>

text \<open>C28. In every run of the component from its construction, whatever the order of
  responses, keystrokes and submissions, the autocomplete options are the names of the city
  list, every list the autocomplete has shown has at most ten entries and is a
  subsequence of the current options, the city list stays empty until both responses are
  in, and the form exists exactly when \<open>ngOnInit\<close> has run.\<close>

theorem component_run_inv:
  assumes "run init_component es = Some c"
  shows "component_inv c"
  using component_inv_run [OF component_inv_init assms] .

theorem component_run_inv_witness:
  "run init_component demo_events = Some (the (run init_component demo_events)) \<and>
   component_inv (the (run init_component demo_events)) \<and>
   filtered (the (run init_component demo_events)) = [[], [], [''Roma (RM)'']]"
proof -
  have r: "run init_component demo_events = Some (the (run init_component demo_events))"
    by code_simp
  have "filtered (the (run init_component demo_events)) = [[], [], [''Roma (RM)'']]"
    by code_simp
  with component_run_inv [OF r] r show ?thesis by simp
qed

text \<open>C29. The municipality loader completes: after \<open>ngOnInit\<close>, once the municipality
  response and then the province response arrive, whatever the user types or submits
  before, between and after them, no request is pending and the options and the city list
  hold every municipality of the response, in order, with its display name.\<close>

theorem apiRequest_completes:
  assumes "list_all user_event xs" "list_all user_event ys" "list_all user_event zs"
  shows "\<exists>c. run init_component (NgOnInit # xs @ CityListResponse res # ys @ DistrictListResponse res2 # zs) = Some c \<and>
             phase c = Loaded \<and> pending_request (phase c) = None \<and>
             options (main c) = map (cityDisplayName res2) res \<and>
             cityList (main c) = map (\<lambda>e. \<lparr>city.name = cityDisplayName res2 e, code = codiceCatastale e\<rparr>) res"
proof -
  let ?c0 = "ngOnInit init_component"
  have c0: "form_built ?c0" "phase ?c0 = AwaitCities" "cityList (main ?c0) = []" "options (main ?c0) = []"
    by (simp_all add: ngOnInit_def init_component_def init_main_form_def)
  from run_user_events [OF c0(1) assms(1)] c0 obtain c1 where c1: "run ?c0 xs = Some c1"
    "phase c1 = AwaitCities" "form_built c1" "cityList (main c1) = []" "options (main c1) = []" by auto
  let ?c1' = "c1\<lparr>phase := AwaitDistricts res\<rparr>"
  from run_user_events [of ?c1' ys] c1 assms(2) obtain c2 where c2: "run ?c1' ys = Some c2"
    "phase c2 = AwaitDistricts res" "form_built c2" "cityList (main c2) = []" "options (main c2) = []" by auto
  let ?c2' = "c2\<lparr>main := apiRequest res res2 (main c2), phase := Loaded\<rparr>"
  from run_user_events [of ?c2' zs] c2 assms(3) obtain c3 where c3: "run ?c2' zs = Some c3"
    "phase c3 = Loaded" "cityList (main c3) = cityList (apiRequest res res2 (main c2))"
    "options (main c3) = options (apiRequest res res2 (main c2))" by auto
  have "run init_component (NgOnInit # xs @ CityListResponse res # ys @ DistrictListResponse res2 # zs) = Some c3"
    using c1 c2 c3 by (simp add: run_append init_component_def)
  with c2 c3 show ?thesis by (auto simp: apiRequest_fields)
qed

theorem apiRequest_completes_witness:
  "list_all user_event [CityChange ''Rom''] \<and> list_all user_event [] \<and>
   list_all user_event [CityChange ''Rom'', Submit initial_form] \<and>
   (\<exists>c. run init_component demo_events = Some c \<and> phase c = Loaded \<and>
        options (main c) = [''Roma (RM)''])"
proof -
  have u: "list_all user_event [CityChange ''Rom'']" "list_all user_event []"
    "list_all user_event [CityChange ''Rom'', Submit initial_form]" by simp_all
  have n: "map (cityDisplayName [rm_district]) [roma_response] = [''Roma (RM)'']" by code_simp
  have e: "NgOnInit # [CityChange ''Rom''] @ CityListResponse [roma_response] # [] @
      DistrictListResponse [rm_district] # [CityChange ''Rom'', Submit initial_form] = demo_events"
    by (simp add: demo_events_def)
  from apiRequest_completes [OF u, of "[roma_response]" "[rm_district]"]
  have "\<exists>c. run init_component demo_events = Some c \<and> phase c = Loaded \<and>
      options (main c) = map (cityDisplayName [rm_district]) [roma_response]"
    unfolding e by blast
  with u n show ?thesis by simp
qed

text \<open>C30. The autocomplete is not refreshed when the data arrives: text typed before
  the responses is filtered against the empty option list, and the arrival of the
  municipalities emits nothing, so the panel stays empty until the next keystroke although
  the options are loaded.\<close>

theorem autocomplete_not_refreshed:
  "\<exists>c. run init_component [NgOnInit, CityChange v, CityListResponse res, DistrictListResponse res2] = Some c \<and>
       filtered c = [[], []] \<and> options (main c) = map (cityDisplayName res2) res"
  by (simp add: init_component_def ngOnInit_def init_main_form_def filterOptions_def apiRequest_fields)

text \<open>C31. Submitting a form whose date is still empty throws: \<open>''''._d\<close> is
  \<open>undefined\<close> and \<open>date.getFullYear()\<close> raises a \<open>TypeError\<close>. The error is logged and
  the component's state, the fiscal code included, is left as it was.\<close>

theorem submit_missing_date:
  assumes "form_built c" "date_control fc = None"
  shows "step c (Submit fc) = Some (c\<lparr>console := console c @ [TypeError ''getFullYear'']\<rparr>)"
  using assms by (simp add: submit_def member_d_def dateAndSexExtractor_js_def)

theorem submit_missing_date_witness:
  "form_built (ngOnInit init_component) \<and> date_control initial_form = None \<and>
   step (ngOnInit init_component) (Submit initial_form) =
     Some ((ngOnInit init_component)\<lparr>console := [TypeError ''getFullYear'']\<rparr>)"
proof -
  have h: "form_built (ngOnInit init_component)" "date_control initial_form = None"
    by (simp_all add: ngOnInit_def initial_form_def)
  have "console (ngOnInit init_component) = []" by (simp add: ngOnInit_def init_component_def)
  with submit_missing_date [OF h] h show ?thesis by simp
qed

text \<open>C32. \<open>getForm\<close> does not check that a sex was chosen: a sex control still holding
  the empty string is not \<open>'female'\<close>, and the code is computed as for a male.\<close>

theorem submit_missing_sex:
  "submit (fc\<lparr>sex_control := None\<rparr>) st = submit (fc\<lparr>sex_control := Some male\<rparr>) st"
  by (simp add: submit_def member_d_def dateAndSexExtractor_js_def split: option.split)

text \<open>C34. The province callback runs at most once in any run, and the loader has
  finished exactly when it has run: the nested subscription is made once, in
  \<open>ngOnInit\<close>, so the lists are never filled twice.\<close>

theorem district_callback_once:
  assumes "run init_component es = Some c"
  shows "length (filter district_response es) \<le> 1 \<and>
         (phase c = Loaded \<longleftrightarrow> length (filter district_response es) = 1)"
  using run_loaded [OF assms] by (simp add: init_component_def split: if_splits)

theorem district_callback_once_witness:
  "run init_component demo_events = Some (the (run init_component demo_events)) \<and>
   length (filter district_response demo_events) = 1 \<and>
   run init_component (demo_events @ [DistrictListResponse [rm_district]]) = None"
proof -
  have r: "run init_component demo_events = Some (the (run init_component demo_events))"
    by code_simp
  have "run init_component (demo_events @ [DistrictListResponse [rm_district]]) = None"
    by code_simp
  with district_callback_once [OF r] r show ?thesis by (simp add: demo_events_def)
qed

text \<open>C35. A failed request is never recovered: neither \<open>subscribe\<close> of \<open>apiRequest\<close>
  has an error callback, so after an error on either request the loader stays failed,
  the option and city lists stay empty, the error is only logged, and no form can pass
  the autocomplete validator for the rest of the run.\<close>

theorem request_error_stuck:
  assumes "run init_component es = Some c" "RequestError r \<in> set es"
  shows "phase c = Failed \<and> cityList (main c) = [] \<and> options (main c) = [] \<and>
         HttpErrorResponse (request_url r) \<in> set (console c) \<and>
         (\<forall>fc. \<not> form_valid (options (main c)) fc)"
proof -
  from split_list [OF assms(2)] obtain xs ys where es: "es = xs @ RequestError r # ys" by blast
  with assms(1) obtain c1 c2 where r1: "run init_component xs = Some c1"
    and s: "step c1 (RequestError r) = Some c2" and r2: "run c2 ys = Some c"
    by (blast elim: run_split_event)
  have "component_inv c1" using component_inv_run [OF component_inv_init r1] .
  moreover from s have "pending_request (phase c1) = Some r" by (simp split: if_splits)
  ultimately have "cityList (main c1) = []" "options (main c1) = []"
    by (auto simp: component_inv_def)
  with s have "phase c2 = Failed" "cityList (main c2) = []" "options (main c2) = []"
    "HttpErrorResponse (request_url r) \<in> set (console c2)"
    by (auto split: if_splits)
  with run_Failed [OF r2] run_console [OF r2] show ?thesis
    by (auto simp: form_valid_Nil dest: set_mono_prefix)
qed

theorem request_error_stuck_witness:
  "run init_component [NgOnInit, RequestError GetCityList, CityChange ''Rom''] =
     Some (the (run init_component [NgOnInit, RequestError GetCityList, CityChange ''Rom''])) \<and>
   RequestError GetCityList \<in> set [NgOnInit, RequestError GetCityList, CityChange ''Rom''] \<and>
   phase (the (run init_component [NgOnInit, RequestError GetCityList, CityChange ''Rom''])) = Failed \<and>
   console (the (run init_component [NgOnInit, RequestError GetCityList, CityChange ''Rom''])) =
     [HttpErrorResponse ''https://comuni-ita.herokuapp.com/api/comuni'']"
proof -
  let ?es = "[NgOnInit, RequestError GetCityList, CityChange ''Rom'']"
  have r: "run init_component ?es = Some (the (run init_component ?es))" by code_simp
  have m: "RequestError GetCityList \<in> set ?es" by simp
  have "console (the (run init_component ?es)) = [HttpErrorResponse ''https://comuni-ita.herokuapp.com/api/comuni'']"
    by code_simp
  with request_error_stuck [OF r m] r m show ?thesis by simp
qed

end
