(* ===== verification/Request_Settling.thy ===== *)
theory Request_Settling
  imports Component_Run "HOL-Library.While_Combinator"
begin

text \<open>
  The requests of \<open>apiRequest\<close> settle. A backend answers each request of
  \<open>CityApiService\<close> with a response or an error; \<open>settle\<close> delivers the answer to the
  pending request, one at a time, for as long as a subscription is waiting. It is written
  with \<open>while_option\<close>, so that a loop that never ends is the value \<open>None\<close>; the measure is
  the number of requests the nested subscriptions can still make.
\<close>

section \<open>Definitions\<close>

text \<open>A backend: the municipality list and the province list it returns, \<open>None\<close> for a
  request that fails.\<close>

datatype backend = Backend "cityResponse list option" "districtResponse list option"

fun delivery :: "backend \<Rightarrow> api_request \<Rightarrow> event" where
  "delivery (Backend cs ds) GetCityList =
     (case cs of Some res \<Rightarrow> CityListResponse res | None \<Rightarrow> RequestError GetCityList)"
| "delivery (Backend cs ds) GetDitrictList =
     (case ds of Some res2 \<Rightarrow> DistrictListResponse res2 | None \<Rightarrow> RequestError GetDitrictList)"

definition deliver :: "backend \<Rightarrow> component \<Rightarrow> component" where
  "deliver b c =
     (case pending_request (phase c) of
        None \<Rightarrow> c
      | Some r \<Rightarrow> (case step c (delivery b r) of Some c' \<Rightarrow> c' | None \<Rightarrow> c))"

definition settle :: "backend \<Rightarrow> component \<Rightarrow> component option" where
  "settle b c = while_option (\<lambda>c. pending_request (phase c) \<noteq> None) (deliver b) c"

primrec requests_left :: "loader_phase \<Rightarrow> nat" where
  "requests_left Idle = 0"
| "requests_left AwaitCities = 2"
| "requests_left (AwaitDistricts res) = 1"
| "requests_left Loaded = 0"
| "requests_left Failed = 0"

section \<open>Lemmas\<close>

lemma settle_pending: "pending_request (phase c) \<noteq> None \<Longrightarrow> settle b c = settle b (deliver b c)"
  by (simp add: settle_def while_option_unfold [of _ _ c])

lemma settle_done: "pending_request (phase c) = None \<Longrightarrow> settle b c = Some c"
  by (simp add: settle_def while_option_unfold [of _ _ c])

text \<open>One or two deliveries, as rewrite rules with no \<open>settle\<close> on the right.\<close>

lemma settle_one:
  "pending_request (phase c) \<noteq> None \<Longrightarrow> pending_request (phase (deliver b c)) = None \<Longrightarrow>
   settle b c = Some (deliver b c)"
  by (simp add: settle_pending settle_done)

lemma settle_two:
  "pending_request (phase c) \<noteq> None \<Longrightarrow> pending_request (phase (deliver b c)) \<noteq> None \<Longrightarrow>
   pending_request (phase (deliver b (deliver b c))) = None \<Longrightarrow>
   settle b c = Some (deliver b (deliver b c))"
  by (simp add: settle_pending [of c] settle_pending [of "deliver b c"] settle_done)

section \<open>Properties of the settling requests\<close>

text \<open>C36. Termination of the requests: from any state, delivering a backend's answers
  to the pending requests ends, in a state where no subscription waits.\<close>

theorem settle_terminates: "\<exists>c'. settle b c = Some c' \<and> pending_request (phase c') = None"
proof -
  have dec: "requests_left (phase (deliver b c)) < requests_left (phase c)"
    if "pending_request (phase c) \<noteq> None" for c
  proof (cases b)
    case (Backend cs ds)
    with that show ?thesis
      by (cases "phase c") (auto simp: deliver_def split: option.splits)
  qed
  have "\<exists>c'. settle b c = Some c'"
    unfolding settle_def
    by (rule wf_rel_while_option_Some [where R = "measure (\<lambda>c. requests_left (phase c))" and P = "\<lambda>_. True"])
       (simp_all add: dec)
  then obtain c' where c': "settle b c = Some c'" ..
  have "\<not> pending_request (phase c') \<noteq> None"
    by (rule while_option_stop) (use c' in \<open>simp add: settle_def\<close>)
  with c' show ?thesis by simp
qed

text \<open>C37. What the loader ends with, after \<open>ngOnInit\<close>, for each backend: the province
  list is requested only once the municipality list has arrived, so a failing
  municipality request logs one error and no province request is made; a failing
  province request logs one error; with both lists the options hold every municipality.
  In both failures the option list stays empty.\<close>

theorem settle_outcome:
  "\<exists>c. settle (Backend cs ds) (ngOnInit init_component) = Some c \<and>
     (case cs of
        None \<Rightarrow> phase c = Failed \<and> console c = [HttpErrorResponse (request_url GetCityList)] \<and> options (main c) = []
      | Some res \<Rightarrow>
          (case ds of
             None \<Rightarrow> phase c = Failed \<and> console c = [HttpErrorResponse (request_url GetDitrictList)] \<and>
                      options (main c) = []
           | Some res2 \<Rightarrow> phase c = Loaded \<and> console c = [] \<and> options (main c) = map (cityDisplayName res2) res))"
  by (cases cs; cases ds)
     (simp_all add: settle_one settle_two deliver_def ngOnInit_def init_component_def
                    init_main_form_def apiRequest_fields)

end
