(* ===== verification/Spec2Isabelle.thy ===== *)
theory Spec2Isabelle
  imports Request_Settling
begin

text \<open>
  \<^bold>\<open>Verification of the Italian fiscal code calculator.\<close>
  The repository is an Angular application. One component,
  \<open>MainFormComponent\<close> (src/src/app/views/main-form/main-form.component.ts), holds all
  the logic: it loads the municipalities and provinces through \<open>CityApiService\<close>
  (src/src/app/api/city-api.service.ts), offers them in an autocomplete validated by
  \<open>autoCompleteValidator\<close> (src/src/app/validators/autocomplete-validator.ts), and on
  submission computes the 16-character fiscal code from surname, given name, sex, birth
  date and birth municipality. The data shapes are in src/src/app/models/city.ts and
  src/src/app/models/user.ts.

  \<^bold>\<open>Theories and the code they model.\<close>
  \<^item> \<open>Prelude\<close>: the JavaScript string built-ins the component calls (\<open>trim\<close>,
    \<open>toUpperCase\<close>, \<open>toLowerCase\<close>, \<open>split\<close>/\<open>join\<close>, \<open>includes\<close>, \<open>String(n)\<close>,
    \<open>splice\<close>, \<open>undefined\<close> printed by \<open>+\<close>) on ASCII strings, with shared lemmas:
    split/join removes the separator, \<open>includes\<close> is \<open>sublist\<close>, decimal printing and
    its read-back, case conversion.
  \<^item> \<open>Name_Encoder\<close>: \<open>nameExtractor\<close> (lines 76--131) as \<open>name_chars\<close>,
    \<open>consonants\<close>, \<open>vowels\<close> and the switch \<open>skeleton_of\<close>; \<open>skeleton_spec\<close> is the
    specification's rule and \<open>nameExtractor_refines\<close> the refinement.
  \<^item> \<open>Date_Encoder\<close>: \<open>dateAndSexExtractor\<close> and \<open>addZero\<close> (lines 133--187); the
    \<open>Date\<close> is the record \<open>js_date\<close> of \<open>getFullYear\<close>, \<open>getMonth\<close>, \<open>getDate\<close>.
  \<^item> \<open>Check_Digit\<close>: \<open>lastCode\<close>, \<open>oddsCalculator\<close>, \<open>evensCalculator\<close>,
    \<open>lastCodeCalculator\<close> (lines 193--524); the switches are association tables
    with 0 (or the empty string) for the missing \<open>default\<close>; \<open>check_value\<close> is the
    specification's position-weighted sum.
  \<^item> \<open>City_Data\<close>: the records of city.ts, the join callback of \<open>apiRequest\<close>
    (\<open>apiRequest_loop\<close>, \<open>cityDisplayName\<close>), \<open>cityCodeExtractor\<close>,
    \<open>autoCompleteValidator\<close> and the autocomplete \<open>_filter\<close> (\<open>filterOptions\<close>).
  \<^item> \<open>Main_Form\<close>: the component's state (\<open>cityList\<close>, \<open>options\<close>,
    \<open>fiscalCode\<close>), \<open>apiRequest\<close> and \<open>getForm\<close> as state transformers, the
    validators of \<open>formConstruction\<close>, and the runs of the component as the inductive
    \<open>reachable\<close>: responses arrive and forms are submitted in any order.
  \<^item> \<open>Component_Run\<close>: the component over time. \<open>ngOnInit\<close> (lines 24--28), the
    requests of \<open>CityApiService\<close> (\<open>api_request\<close>, \<open>request_url\<close>), the nested
    subscriptions of \<open>apiRequest\<close> as the phases \<open>loader_phase\<close> (with \<open>Failed\<close>
    after a request error, which no callback handles), the emissions of
    \<open>filteredOptions\<close> (\<open>matAutocompleteStart\<close>, lines 46--51) and \<open>getForm\<close> on the
    values the controls hold at run time (\<open>submit\<close>: the sex control's string, the
    \<open>_d\<close> read that gives \<open>undefined\<close> on the initial empty string, the method calls
    of \<open>dateAndSexExtractor_js\<close> that throw on \<open>undefined\<close>) are the function \<open>step\<close>
    on a datatype of events; \<open>run\<close> folds it over an event list, \<open>None\<close> when an event
    cannot occur in the state it meets.
  \<^item> \<open>Request_Settling\<close>: a backend answering each request with a list or an error,
    and \<open>settle\<close>, the \<open>while_option\<close> loop that delivers the answers to the pending
    requests until no subscription waits.
  \<^item> This theory: the composition (\<open>getForm\<close> over all encoders) and the properties
    that span components.

  \<^bold>\<open>What the lemmas show.\<close>
  Each encoder is proved against the specification's rule (refinement lemmas), with its
  bounds (3, 5 and 1 characters), and its edge cases as they are in the code. The name
  skeleton ignores letter case and spaces; the date/sex token is read back to year, month,
  day and sex (\<open>decode_date_token\<close>); the check character detects any single
  substitution of a letter by another letter or of a digit by another digit (a digit and
  a letter of equal value, such as 0 and A, are not told apart).
  The state machine keeps \<open>options = map name cityList\<close> in every reachable state, so a
  city accepted by the validator is always found by \<open>cityCodeExtractor\<close>; with
  four-character cadastral codes the submitted code then has 16 characters and ends with
  the check character of its first 15. When, in addition, the names hold only Latin
  letters and spaces (\<open>name_text\<close>) and the service returns alphanumeric codes
  (\<open>alnum_codes\<close>), every character of the code is in A-Z or 0-9. The findings of
  the manifest are theorems here: three-digit years shift the code, non-letters count as
  consonants, characters outside 0-9/A-Z are ignored by the check digit, and an unknown
  city is printed as \<open>undefined\<close> in a 21-character code.
  Over event runs (\<open>Component_Run\<close>): an invariant of every run (options and city
  list agree, each autocomplete emission is at most ten options and a subsequence of the
  options, the city list is empty until both responses are in); a simulation lemma
  (\<open>run_reachable_init\<close>) carrying the properties of \<open>reachable\<close> to runs; liveness of the loader, which completes after the two responses
  whatever the user does meanwhile, and whose province callback runs at most once; the
  autocomplete is not refreshed by the arrival of the data; an empty date makes
  \<open>date.getFullYear()\<close> throw and leaves the state; an empty sex fails the test
  \<open>sex === 'female'\<close> and is encoded as male (\<open>submit_eq\<close> relates the run-time
  \<open>getForm\<close> to the typed one); a request error leaves the loader
  failed for good, with no option a form could choose; and a valid submission after any
  run stores a 16-character code. \<open>Request_Settling\<close> shows that the requests settle
  from any state, and what the loader ends with for each backend.

  \<^bold>\<open>Bounds and fuel.\<close>
  Every loop of the code is a \<open>forEach\<close> over a finite array: each is structural
  recursion (\<open>partition_parity\<close>, \<open>apiRequest_loop\<close>) or a library fold, and
  \<open>run\<close> recurses on the event list; no fuel is needed and every function is total.
  \<open>string_of_nat\<close> recurses on \<open>n div 10\<close>. The only loop that is not structural is
  \<open>settle\<close>, a \<open>while_option\<close> whose termination is proved with the measure
  \<open>requests_left\<close> (at most two requests: municipalities, then provinces).

  \<^bold>\<open>Not modelled.\<close>
  The transport of the HTTP requests is not modelled: a request is a value of
  \<open>api_request\<close> with its URL, and its outcome is a later event, the parsed list or an
  error notification. The lines of city-api.service.ts left out are its imports and the
  \<open>@Injectable\<close> decorator. The template is not in the repository: the model assumes
  that the view subscribes to \<open>filteredOptions\<close> at initialisation and that the user
  can submit at any time after it. The Material date picker is read only through
  \<open>value._d\<close>: a date control holds either nothing or a \<open>js_date\<close>. Strings are
  byte lists and the built-ins are modelled on ASCII: JavaScript strings are UTF-16 and
  \<open>toUpperCase\<close> also maps non-ASCII letters.
\<close>

section \<open>Definitions\<close>

definition four_char_codes :: "cityResponse \<Rightarrow> bool" where
  "four_char_codes e \<longleftrightarrow> length (codiceCatastale e) = 4"

definition alnum_codes :: "cityResponse \<Rightarrow> bool" where
  "alnum_codes e \<longleftrightarrow> set (codiceCatastale e) \<subseteq> set upper_letters \<union> set decimal_digits"

definition name_text :: "string \<Rightarrow> bool" where
  "name_text nm \<longleftrightarrow> set nm \<subseteq> set upper_letters \<union> set lower_letters \<union> {CHR '' ''}"

definition rossi_form :: form_controls where
  "rossi_form = \<lparr>surname_control = ''Rossi'', name_control = ''Mario'', sex_control = Some male,
     date_control = Some \<lparr>getFullYear = 1980, getMonth = 2, getDate = 12\<rparr>, city_control = ''Roma (RM)''\<rparr>"

section \<open>Lemmas\<close>

lemma length_body_parts:
  assumes "valid_date d"
  shows "length (nameExtractor a False @ nameExtractor b True @ dateAndSexExtractor d s) = 11"
proof -
  have "day_field d s < 100" using assms by (simp add: valid_date_def day_field_def)
  with assms show ?thesis
    by (simp add: nameExtractor_eq_spec length_skeleton_spec dateAndSexExtractor_valid
                  length_addZero day_field_def [symmetric])
qed

lemma valid_city_code:
  assumes "reachable four_char_codes st" "form_valid (options st) fc"
  shows "\<exists>k. cityCodeExtractor (cityList st) (city_control fc) = Some k \<and> length k = 4"
  using validated_city_found [OF assms(1) form_valid_city [OF assms(2)]]
  by (auto simp: four_char_codes_def)

lemma getForm_length_16:
  assumes "reachable four_char_codes st" "form_valid (options st) fc" "valid_date d"
  shows "length (fiscalCode (getForm (user_of_form fc s d) st)) = 16"
proof -
  from valid_city_code [OF assms(1,2)] obtain k
    where k: "cityCodeExtractor (cityList st) (city_control fc) = Some k" "length k = 4" by blast
  with length_body_parts [OF assms(3)] show ?thesis
    by (simp add: getForm_fields fiscal_body_def user_of_form_def js_show_opt_Some)
qed

lemma rossi_state_reachable_alnum:
  "reachable alnum_codes (apiRequest [roma_response] [rm_district] init_main_form)"
  by (rule reachable.loaded [OF reachable.init])
     (simp add: alnum_codes_def roma_response_def alphabet_simps)

lemma rossi_state_reachable: "reachable four_char_codes (apiRequest [roma_response] [rm_district] init_main_form)"
  by (rule reachable.loaded [OF reachable.init]) (simp add: four_char_codes_def roma_response_def)

section \<open>Properties of the composed fiscal code\<close>

text \<open>C1. In every run in which the service returns four-character cadastral codes, a
  submitted form that passes validation, with a calendar date of a four-digit year, gives a
  fiscal code of 16 characters: the surname and given-name skeletons, the date/sex token
  and the city code, in this order, followed by the check character of these 15.\<close>

theorem getForm_well_formed:
  assumes "reachable four_char_codes st" "form_valid (options st) fc" "valid_date d"
  shows "\<exists>k. cityCodeExtractor (cityList st) (city_control fc) = Some k \<and> length k = 4 \<and>
           fiscalCode (getForm (user_of_form fc s d) st) =
             nameExtractor (surname_control fc) False @ nameExtractor (name_control fc) True @
             dateAndSexExtractor d s @ k @
             lastCode (nameExtractor (surname_control fc) False @ nameExtractor (name_control fc) True @
                       dateAndSexExtractor d s @ k) \<and>
           length (fiscalCode (getForm (user_of_form fc s d) st)) = 16"
proof -
  from valid_city_code [OF assms(1,2)] obtain k
    where k: "cityCodeExtractor (cityList st) (city_control fc) = Some k" "length k = 4" by blast
  with length_body_parts [OF assms(3)] show ?thesis
    by (simp add: getForm_fields fiscal_body_def user_of_form_def js_show_opt_Some)
qed

theorem getForm_well_formed_witness:
  "reachable four_char_codes (apiRequest [roma_response] [rm_district] init_main_form) \<and>
   form_valid (options (apiRequest [roma_response] [rm_district] init_main_form)) rossi_form \<and>
   valid_date \<lparr>getFullYear = 1980, getMonth = 2, getDate = 12\<rparr> \<and>
   length (fiscalCode (getForm (user_of_form rossi_form male \<lparr>getFullYear = 1980, getMonth = 2, getDate = 12\<rparr>)
     (apiRequest [roma_response] [rm_district] init_main_form))) = 16"
proof -
  have v: "form_valid (options (apiRequest [roma_response] [rm_district] init_main_form)) rossi_form"
    by code_simp
  have d: "valid_date \<lparr>getFullYear = 1980, getMonth = 2, getDate = 12\<rparr>"
    by (simp add: valid_date_def)
  from getForm_well_formed [OF rossi_state_reachable v d, of male] rossi_state_reachable v d
  show ?thesis by blast
qed

text \<open>C5. A city accepted by the form's validator is always resolved: in every reachable
  state, \<open>cityCodeExtractor\<close> finds a code for the city of a valid form.\<close>

theorem form_valid_city_resolved:
  assumes "reachable ok st" "form_valid (options st) fc"
  shows "cityCodeExtractor (cityList st) (city_control fc) \<noteq> None"
  using validated_city_found [OF assms(1) form_valid_city [OF assms(2)]] by auto

theorem form_valid_city_resolved_witness:
  "reachable four_char_codes (apiRequest [roma_response] [rm_district] init_main_form) \<and>
   form_valid (options (apiRequest [roma_response] [rm_district] init_main_form)) rossi_form \<and>
   cityCodeExtractor (cityList (apiRequest [roma_response] [rm_district] init_main_form))
     (city_control rossi_form) \<noteq> None"
proof -
  have v: "form_valid (options (apiRequest [roma_response] [rm_district] init_main_form)) rossi_form"
    by code_simp
  from form_valid_city_resolved [OF rossi_state_reachable v] rossi_state_reachable v
  show ?thesis by blast
qed

text \<open>C25. The fiscal code is over the alphabet A--Z, 0--9 when the surname and the given
  name hold only Latin letters and spaces, the date has a four-digit year and the service
  returns alphanumeric cadastral codes: case conversion, the skeletons, the date/sex token,
  the city code and the check character add no other character.\<close>

theorem getForm_alphabet:
  assumes "reachable alnum_codes st" "form_valid (options st) fc" "valid_date d"
    "name_text (surname_control fc)" "name_text (name_control fc)"
  shows "set (fiscalCode (getForm (user_of_form fc s d) st)) \<subseteq> set upper_letters \<union> set decimal_digits"
proof -
  from validated_city_found [OF assms(1) form_valid_city [OF assms(2)]]
  obtain k e where k: "cityCodeExtractor (cityList st) (city_control fc) = Some k"
    and "alnum_codes e" "k = codiceCatastale e" by blast
  then have "set k \<subseteq> set upper_letters \<union> set decimal_digits" by (simp add: alnum_codes_def)
  moreover have "set (lastCode (fiscal_body (user_of_form fc s d) st)) \<subseteq> set upper_letters"
    by (simp add: lastCode_upper) (rule nth_mem, simp add: upper_letters_props)
  moreover have "set (nameExtractor (surname_control fc) False) \<subseteq> set upper_letters"
    and "set (nameExtractor (name_control fc) True) \<subseteq> set upper_letters"
    using assms(4,5) by (simp_all add: nameExtractor_upper name_text_def)
  ultimately show ?thesis using dateAndSexExtractor_alnum [OF assms(3), of s] k
    by (auto simp: getForm_fields fiscal_body_def user_of_form_def js_show_opt_Some)
qed

theorem getForm_alphabet_witness:
  "reachable alnum_codes (apiRequest [roma_response] [rm_district] init_main_form) \<and>
   form_valid (options (apiRequest [roma_response] [rm_district] init_main_form)) rossi_form \<and>
   valid_date \<lparr>getFullYear = 1980, getMonth = 2, getDate = 12\<rparr> \<and>
   name_text (surname_control rossi_form) \<and> name_text (name_control rossi_form) \<and>
   set (fiscalCode (getForm (user_of_form rossi_form male \<lparr>getFullYear = 1980, getMonth = 2, getDate = 12\<rparr>)
     (apiRequest [roma_response] [rm_district] init_main_form))) \<subseteq> set upper_letters \<union> set decimal_digits"
proof -
  have v: "form_valid (options (apiRequest [roma_response] [rm_district] init_main_form)) rossi_form"
    by code_simp
  have d: "valid_date \<lparr>getFullYear = 1980, getMonth = 2, getDate = 12\<rparr>"
    by (simp add: valid_date_def)
  have n: "name_text (surname_control rossi_form)" "name_text (name_control rossi_form)"
    by (simp_all add: name_text_def rossi_form_def alphabet_simps)
  from getForm_alphabet [OF rossi_state_reachable_alnum v d n, of male] rossi_state_reachable_alnum v d n
  show ?thesis by blast
qed

text \<open>C33. The fiscal code from a run of the component: after any run whose responses
  carry four-character cadastral codes, submitting a form that passes validation, with a
  chosen sex and a calendar date of a four-digit year, raises no error and stores a
  fiscal code of 16 characters.\<close>

theorem run_submit_well_formed:
  assumes "run init_component es = Some c" "list_all (response_ok four_char_codes) es"
    "form_valid (options (main c)) fc" "date_control fc = Some d" "valid_date d"
    "sex_control fc = Some s"
  shows "\<exists>c'. step c (Submit fc) = Some c' \<and> console c' = console c \<and>
              length (fiscalCode (main c')) = 16"
proof -
  have r: "reachable four_char_codes (main c)" using run_reachable_init [OF assms(1,2)] .
  from run_form_valid_built [OF assms(1,3)] have "form_built c" ..
  with assms(4,6) have "step c (Submit fc) = Some (c\<lparr>main := getForm (user_of_form fc s d) (main c)\<rparr>)"
    by (simp add: submit_eq sex_value_female)
  with getForm_length_16 [OF r assms(3,5)] show ?thesis by simp
qed

theorem run_submit_well_formed_witness:
  "run init_component [NgOnInit, CityListResponse [roma_response], DistrictListResponse [rm_district]] =
     Some (the (run init_component [NgOnInit, CityListResponse [roma_response], DistrictListResponse [rm_district]])) \<and>
   list_all (response_ok four_char_codes) [NgOnInit, CityListResponse [roma_response], DistrictListResponse [rm_district]] \<and>
   form_valid (options (main (the (run init_component [NgOnInit, CityListResponse [roma_response],
     DistrictListResponse [rm_district]])))) rossi_form \<and>
   date_control rossi_form = Some \<lparr>getFullYear = 1980, getMonth = 2, getDate = 12\<rparr> \<and>
   valid_date \<lparr>getFullYear = 1980, getMonth = 2, getDate = 12\<rparr> \<and> sex_control rossi_form = Some male \<and>
   (\<exists>c'. step (the (run init_component [NgOnInit, CityListResponse [roma_response], DistrictListResponse [rm_district]]))
      (Submit rossi_form) = Some c' \<and> length (fiscalCode (main c')) = 16)"
proof -
  let ?es = "[NgOnInit, CityListResponse [roma_response], DistrictListResponse [rm_district]]"
  have r: "run init_component ?es = Some (the (run init_component ?es))" by code_simp
  have ok: "list_all (response_ok four_char_codes) ?es"
    by (simp add: four_char_codes_def roma_response_def)
  have v: "form_valid (options (main (the (run init_component ?es)))) rossi_form" by code_simp
  have h: "date_control rossi_form = Some \<lparr>getFullYear = 1980, getMonth = 2, getDate = 12\<rparr>"
    "valid_date \<lparr>getFullYear = 1980, getMonth = 2, getDate = 12\<rparr>" "sex_control rossi_form = Some male"
    by (simp_all add: rossi_form_def valid_date_def)
  from run_submit_well_formed [OF r ok v h] r ok v h show ?thesis by blast
qed

text \<open>C6. A city that is not in the list is not reported: the code concatenates
  \<open>undefined\<close>, which prints as the nine characters \<open>undefined\<close>, and the result has 21
  characters.\<close>

theorem getForm_unknown_city:
  assumes "valid_date (date u)" "cityCodeExtractor (cityList st) (city u) = None"
  shows "length (fiscalCode (getForm u st)) = 21 \<and> sublist ''undefined'' (fiscalCode (getForm u st))"
proof -
  let ?a = "nameExtractor (surname u) False @ nameExtractor (user.name u) True @
            dateAndSexExtractor (date u) (sex u)"
  have f: "fiscalCode (getForm u st) = ?a @ ''undefined'' @ lastCode (?a @ ''undefined'')"
    using assms(2) by (simp add: getForm_fields fiscal_body_def js_show_opt_None)
  with length_body_parts [OF assms(1)] have "length (fiscalCode (getForm u st)) = 21"
    by simp
  moreover have "sublist ''undefined'' (fiscalCode (getForm u st))"
    unfolding f by (rule sublist_appendI)
  ultimately show ?thesis ..
qed

theorem getForm_unknown_city_witness:
  "valid_date (date (user_of_form rossi_form male \<lparr>getFullYear = 1980, getMonth = 2, getDate = 12\<rparr>)) \<and>
   cityCodeExtractor (cityList init_main_form) (city (user_of_form rossi_form male \<lparr>getFullYear = 1980, getMonth = 2, getDate = 12\<rparr>)) = None \<and>
   fiscalCode (getForm (user_of_form rossi_form male \<lparr>getFullYear = 1980, getMonth = 2, getDate = 12\<rparr>) init_main_form)
     = ''RSSMRA80C12undefinedK''"
proof -
  have h: "valid_date (date (user_of_form rossi_form male \<lparr>getFullYear = 1980, getMonth = 2, getDate = 12\<rparr>))"
    "cityCodeExtractor (cityList init_main_form) (city (user_of_form rossi_form male \<lparr>getFullYear = 1980, getMonth = 2, getDate = 12\<rparr>)) = None"
    by (simp_all add: valid_date_def user_of_form_def init_main_form_def cityCodeExtractor_def)
  have "fiscalCode (getForm (user_of_form rossi_form male \<lparr>getFullYear = 1980, getMonth = 2, getDate = 12\<rparr>) init_main_form)
     = ''RSSMRA80C12undefinedK''" by code_simp
  with getForm_unknown_city [OF h] h show ?thesis by simp
qed

end
